theory Spec2Isabelle
  imports Main "HOL-Library.AList" "HOL-Library.Char_ord" "HOL-Library.List_Lexorder"
    "HOL-Library.Multiset"
begin

section \<open>Identifier codec (package slackid)\<close>

text \<open>
  The connector addresses every remote entity through the helpers of package
  \<^verbatim>\<open>slackid\<close>: \<^verbatim>\<open>MakePortalID\<close>/\<^verbatim>\<open>ParsePortalID\<close>,
  \<^verbatim>\<open>MakeUserID\<close>/\<^verbatim>\<open>ParseUserID\<close> and
  \<^verbatim>\<open>MakeMessageID\<close>/\<^verbatim>\<open>ParseMessageID\<close>. Their bodies are not among the
  sources; only their call sites are (\<^verbatim>\<open>handlematrix.go\<close>, \<^verbatim>\<open>handleslack.go\<close> and the
  identifier resolver). The call sites fix the signatures: \<^verbatim>\<open>ParsePortalID\<close> and
  \<^verbatim>\<open>ParseUserID\<close> return two strings, \<^verbatim>\<open>ParseMessageID\<close> returns three strings
  and an \<^verbatim>\<open>ok\<close> flag, and the resolver recognises an encoded user identifier by
  \<^verbatim>\<open>strings.ContainsRune(identifier, '-')\<close>.
\<close>

type_synonym PortalID = string
type_synonym UserID = string
type_synonym MessageID = string

text \<open>\<^verbatim>\<open>networkid.EmojiID\<close> is a named string type; \<^verbatim>\<open>wrapReaction\<close> builds it by the
  conversion \<^verbatim>\<open>networkid.EmojiID(reaction)\<close> and \<^verbatim>\<open>HandleMatrixReaction\<close> reads it back
  by \<^verbatim>\<open>string(msg.PreHandleResp.EmojiID)\<close>.\<close>

datatype EmojiID = EmojiID (emoji_string: string)

definition delimiter :: char where
  "delimiter = CHR ''-''"

text \<open>Go's \<^verbatim>\<open>strings.Split(s, sep)\<close> for a separator of one byte: the pieces between
  the separators, in order; a string without separator is its own single piece.\<close>

fun split_on :: "char \<Rightarrow> string \<Rightarrow> string list" where
  "split_on d [] = [[]]"
| "split_on d (c # cs) =
     (if c = d then [] # split_on d cs
      else (case split_on d cs of
              [] \<Rightarrow> [[c]]
            | p # ps \<Rightarrow> (c # p) # ps))"

text \<open>Modelled from the spec: the bodies of \<^verbatim>\<open>slackid.MakePortalID\<close>,
  \<^verbatim>\<open>slackid.MakeUserID\<close> and \<^verbatim>\<open>slackid.MakeMessageID\<close> are missing. The spec asks
  for an opaque string built deterministically from the remote-native fields, which
  always embeds the team id and carries a required structural delimiter; the delimiter
  is the one the resolver tests for.\<close>

definition MakePortalID :: "string \<Rightarrow> string \<Rightarrow> PortalID" where
  "MakePortalID teamID channelID = teamID @ [delimiter] @ channelID"

definition MakeUserID :: "string \<Rightarrow> string \<Rightarrow> UserID" where
  "MakeUserID teamID userID = teamID @ [delimiter] @ userID"

definition MakeMessageID :: "string \<Rightarrow> string \<Rightarrow> string \<Rightarrow> MessageID" where
  "MakeMessageID teamID channelID timestamp =
     teamID @ [delimiter] @ channelID @ [delimiter] @ timestamp"

text \<open>Modelled from the spec: the bodies of \<^verbatim>\<open>slackid.ParsePortalID\<close>,
  \<^verbatim>\<open>slackid.ParseUserID\<close> and \<^verbatim>\<open>slackid.ParseMessageID\<close> are missing. The spec asks
  for a decoder that recovers the tuple and fails on a string that lacks the structure
  of the encoder's output. The call sites receive the failure as empty strings
  (\<^verbatim>\<open>if channelID == ""\<close>) or as \<^verbatim>\<open>ok == false\<close>.\<close>

definition ParsePortalID :: "PortalID \<Rightarrow> string \<times> string" where
  "ParsePortalID ident =
     (case split_on delimiter ident of
        [teamID, channelID] \<Rightarrow> (teamID, channelID)
      | _ \<Rightarrow> ([], []))"

definition ParseUserID :: "UserID \<Rightarrow> string \<times> string" where
  "ParseUserID ident =
     (case split_on delimiter ident of
        [teamID, userID] \<Rightarrow> (teamID, userID)
      | _ \<Rightarrow> ([], []))"

definition ParseMessageID :: "MessageID \<Rightarrow> string \<times> string \<times> string \<times> bool" where
  "ParseMessageID ident =
     (case split_on delimiter ident of
        [teamID, channelID, timestamp] \<Rightarrow> (teamID, channelID, timestamp, True)
      | _ \<Rightarrow> ([], [], [], False))"

text \<open>A component is well formed when it does not contain the delimiter. Slack's team,
  channel and user ids are upper-case alphanumerics and its timestamps are decimal
  strings with a dot, so every remote-native field is well formed.\<close>

definition well_formed :: "string \<Rightarrow> bool" where
  "well_formed s = (delimiter \<notin> set s)"

section \<open>Errors, effects and collaborators\<close>

text \<open>A Go \<^verbatim>\<open>error\<close> value. \<^verbatim>\<open>ErrNotLoggedIn\<close> is the sentinel of bridgev2;
  \<^verbatim>\<open>ErrorNew\<close> stands for \<^verbatim>\<open>errors.New\<close> and for \<^verbatim>\<open>fmt.Errorf\<close> without
  \<^verbatim>\<open>%w\<close>, \<^verbatim>\<open>ErrorWrap\<close> for \<^verbatim>\<open>fmt.Errorf("...: %w", err)\<close>, and
  \<^verbatim>\<open>Remote\<close> carries the message of an error that a collaborator returned.\<close>

datatype error =
    ErrNotLoggedIn
  | ErrorNew string
  | ErrorWrap string error
  | Remote string

text \<open>A call either returns an error or panics; a panic unwinds the handler.\<close>

datatype failure = Error error | Panic string

definition nil_dereference :: failure where
  "nil_dereference = Panic ''invalid memory address or nil pointer dereference''"

text \<open>Payloads of the content converter and of the Slack client library. Their
  contents are opaque to the connector.\<close>

datatype MsgOption = MsgOption string
datatype UploadFileV2Parameters = UploadFileV2Parameters string
datatype ShareFileParams = ShareFileParams string

record ShareFileInfo =
  Ts :: string

record Share =
  Public :: "string \<rightharpoonup> ShareFileInfo list"
  Private :: "string \<rightharpoonup> ShareFileInfo list"

record File =
  file_ID :: string
  Shares :: Share

record ConvertedSlackMessage =
  SendReq :: "MsgOption option"
  FileUpload :: "UploadFileV2Parameters option"
  FileShare :: "ShareFileParams option"

text \<open>\<^verbatim>\<open>time.Time\<close>: \<open>None\<close> is the zero time, \<open>Some t\<close> an instant.\<close>

type_synonym Time = "int option"

record PortalKey =
  pk_ID :: PortalID
  pk_Receiver :: string

text \<open>\<^verbatim>\<open>networkid.PortalKey.IsEmpty\<close>.\<close>

definition IsEmpty :: "PortalKey \<Rightarrow> bool" where
  "IsEmpty pk = (pk_ID pk = [] \<and> pk_Receiver pk = [])"

record Portal =
  portal_Key :: PortalKey
  MXID :: string

record EventSender =
  IsFromMe :: bool
  SenderLogin :: string
  Sender :: UserID

definition zero_EventSender :: EventSender where
  "zero_EventSender = \<lparr>IsFromMe = False, SenderLogin = [], Sender = []\<rparr>"

datatype ChatInfo = ChatInfo string

record DbMessage =
  db_ID :: MessageID
  db_SenderID :: UserID
  db_Timestamp :: Time

record MatrixMessageResponse =
  DB :: "DbMessage option"
  Pending :: bool

text \<open>The local-network requests of bridgev2, with the fields the handlers read.\<close>

record MatrixMessage =
  msg_Portal :: PortalKey
  msg_Content :: string
  msg_ThreadRoot :: "MessageID option"
  msg_OrigSender :: "string option"

record MatrixEdit =
  edit_Portal :: PortalKey
  edit_Content :: string
  edit_EditTarget :: MessageID
  edit_OrigSender :: "string option"

record MatrixReadReceipt =
  rr_Portal :: PortalKey
  rr_ExactMessage :: "DbMessage option"
  rr_ReadUpTo :: Time

text \<open>Calls of the Slack client library (\<^verbatim>\<open>s.Client\<close> and \<^verbatim>\<open>s.RTM\<close>): the remote
  calls.\<close>

datatype slack_call =
    PostMessageContext string MsgOption
  | UploadFileV2Context UploadFileV2Parameters
  | ShareFile ShareFileParams
  | DeleteMessageContext string string
  | AddReactionContext string string string
  | RemoveReactionContext string string string
  | MarkConversationContext string string
  | RTMSendTyping string
  | RenameConversationContext string string
  | SetTopicOfConversationContext string string
  | GetConversationsForUserContext int string
  | RTMDisconnect

datatype StateEvent =
    StateConnecting | StateConnected | StateUnknownError | StateBadCredentials

record BridgeState =
  bs_StateEvent :: StateEvent
  bs_Error :: string
  bs_Message :: string


subsection \<open>Remote events and their normalized form\<close>

text \<open>The events of the Slack client library that \<^verbatim>\<open>HandleSlackEvent\<close> distinguishes,
  with the fields the connector reads. \<^verbatim>\<open>me_SubMessage\<close> is the timestamp of
  \<^verbatim>\<open>SubMessage\<close>, absent when the pointer is nil; \<^verbatim>\<open>Latest\<close> of a channel is the
  subtype of its latest message, absent when the pointer is nil.\<close>

record MessageEvent =
  me_Channel :: string
  me_User :: string
  me_Timestamp :: string
  me_SubType :: string
  me_SubMessage :: "string option"
  me_DeletedTimestamp :: string

record ReactionItem =
  item_Channel :: string
  item_Timestamp :: string

record Channel =
  ch_ID :: string
  IsIM :: bool
  Latest :: "string option"
  LastRead :: string

datatype slack_event =
    ConnectingEvent int int
  | ConnectedEvent string string
  | HelloEvent
  | InvalidAuthEvent
  | RTMError int string
  | MessageEv MessageEvent
  | ReactionAddedEvent string ReactionItem string string
  | ReactionRemovedEvent string ReactionItem string string
  | UserTypingEvent string string
  | ChannelMarkedEvent string string
  | IMMarkedEvent string string
  | GroupMarkedEvent string string
  | ChannelJoinedEvent Channel
  | ChannelLeftEvent string string
  | GroupJoinedEvent Channel
  | GroupLeftEvent string string
  | MemberJoinedChannelEvent string string
  | MemberLeftChannelEvent string string
  | ChannelUpdateEvent string string
  | EmojiChangedEvent
  | FileSharedEvent | FilePublicEvent | FilePrivateEvent
  | FileCreatedEvent | FileChangeEvent | FileDeletedEvent
  | DesktopNotificationEvent | ReconnectUrlEvent | LatencyReport
  | UnrecognizedEvent string

datatype RemoteEventType =
    RemoteEventUnknown
  | RemoteEventMessage
  | RemoteEventEdit
  | RemoteEventReaction
  | RemoteEventReactionRemove
  | RemoteEventMessageRemove
  | RemoteEventReadReceipt
  | RemoteEventTyping
  | RemoteEventChatInfoChange

text \<open>\<^verbatim>\<open>SlackEventMeta\<close> without its log decorator (logging is not modelled).\<close>

record SlackEventMeta =
  meta_Type :: RemoteEventType
  meta_PortalKey :: PortalKey
  meta_Sender :: EventSender
  meta_Timestamp :: Time
  meta_ID :: MessageID
  meta_CreatePortal :: bool

definition zero_PortalKey :: PortalKey where
  "zero_PortalKey = \<lparr>pk_ID = [], pk_Receiver = []\<rparr>"

definition zero_SlackEventMeta :: SlackEventMeta where
  "zero_SlackEventMeta =
     \<lparr>meta_Type = RemoteEventUnknown, meta_PortalKey = zero_PortalKey,
      meta_Sender = zero_EventSender, meta_Timestamp = None, meta_ID = [],
      meta_CreatePortal = False\<rparr>"

datatype Membership = MembershipNone | MembershipJoin | MembershipLeave

record ChatMember =
  cm_EventSender :: EventSender
  cm_Membership :: Membership
  cm_PrevMembership :: Membership

record ChatInfoChange =
  cic_ChatInfo :: "ChatInfo option"
  cic_MemberChanges :: "ChatMember list option"

text \<open>The extra content of a reaction: the shortcode under
  \<^verbatim>\<open>com.beeper.reaction.shortcode\<close> and, under \<^verbatim>\<open>fi.mau.slack.reaction\<close>, the
  reaction's name and, for a custom emoji, its media reference.\<close>

record ReactionExtra =
  extra_shortcode :: string
  extra_name :: string
  extra_mxc :: "string option"

datatype RemoteEvent =
    SlackMessage SlackEventMeta MessageEvent
  | SlackReaction SlackEventMeta MessageID EmojiID string ReactionExtra
  | SlackTyping SlackEventMeta
  | SlackReadReceipt SlackEventMeta
  | SlackChatInfoChange SlackEventMeta ChatInfoChange

subsection \<open>Effects\<close>

text \<open>Calls into the rest of the bridge (content converter, room directory, database,
  status reporting), in the order the connector issues them.\<close>

datatype bridge_call =
    ToSlack PortalKey string
  | AddPendingToSave string
  | GetLastPartAtOrBeforeTime PortalKey Time
  | FindPortalReceiver PortalID string
  | FetchChatInfo string
  | BridgeStateSend BridgeState
  | QueueRemoteEvent "RemoteEvent option"
  | UserLoginSave "(string \<times> string) list"
  | GetAllForLogin
  | GetExistingPortalByID PortalKey
  | GetChatInfo Portal
  | UpdateInfo Portal ChatInfo
  | GetPortalByID PortalKey
  | CreateMatrixRoom Portal

datatype effect = Slack slack_call | Bridge bridge_call

text \<open>The remote calls of a trace, in order.\<close>

fun remote_calls :: "effect list \<Rightarrow> slack_call list" where
  "remote_calls [] = []"
| "remote_calls (Slack c # tr) = c # remote_calls tr"
| "remote_calls (Bridge b # tr) = remote_calls tr"

datatype ClientHandle = ClientHandle string string
datatype RTMHandle = RTMHandle

text \<open>\<^verbatim>\<open>SlackClient\<close>, the session of one bridged account. \<^verbatim>\<open>Extra\<close> is
  \<^verbatim>\<open>UserLogin.Metadata.Extra\<close> restricted to its string values and \<^verbatim>\<open>LoginID\<close> is
  \<^verbatim>\<open>UserLogin.ID\<close>. An absent \<^verbatim>\<open>Client\<close> is Go's nil pointer.\<close>

record SlackClient =
  Client :: "ClientHandle option"
  RTM :: "RTMHandle option"
  UserID :: string
  TeamID :: string
  IsRealUser :: bool
  Extra :: "(string \<times> string) list"
  LoginID :: string

subsection \<open>Collaborators\<close>

text \<open>The answers of the Slack API, as functions of the request. An answer is
  \<open>Inl msg\<close> for an error with text \<open>msg\<close> and \<open>Inr v\<close> for a result.\<close>

record slack_api =
  resp_PostMessage :: "string \<Rightarrow> MsgOption \<Rightarrow> string + string"
  resp_UploadFileV2 :: "UploadFileV2Parameters \<Rightarrow> string + File"
  resp_ShareFile :: "ShareFileParams \<Rightarrow> string + string"
  resp_DeleteMessage :: "string \<Rightarrow> string \<Rightarrow> string + unit"
  resp_AddReaction :: "string \<Rightarrow> string \<Rightarrow> string \<Rightarrow> string + unit"
  resp_RemoveReaction :: "string \<Rightarrow> string \<Rightarrow> string \<Rightarrow> string + unit"
  resp_MarkConversation :: "string \<Rightarrow> string \<Rightarrow> string + unit"
  resp_RenameConversation :: "string \<Rightarrow> string \<Rightarrow> string + unit"
  resp_SetTopicOfConversation :: "string \<Rightarrow> string \<Rightarrow> string + unit"
  resp_GetConversationsForUser :: "int \<Rightarrow> string \<Rightarrow> string + Channel list \<times> string"
  resp_RTMDisconnect :: "string + unit"

text \<open>The answers of the rest of the bridge: content converter, room directory,
  message database, login store.\<close>

record bridge =
  resp_ToSlack :: "PortalKey \<Rightarrow> string \<Rightarrow> MessageID option \<Rightarrow> MessageID option
                   \<Rightarrow> string option \<Rightarrow> bool \<Rightarrow> string + ConvertedSlackMessage"
  resp_GetLastPartAtOrBeforeTime :: "PortalKey \<Rightarrow> Time \<Rightarrow> string + DbMessage option"
  resp_FindPortalReceiver :: "PortalID \<Rightarrow> string \<Rightarrow> string + PortalKey"
  resp_Save :: "string + unit"
  resp_GetAllForLogin :: "string + PortalKey list"
  resp_GetExistingPortalByID :: "PortalKey \<Rightarrow> string + Portal"
  resp_GetPortalByID :: "PortalKey \<Rightarrow> string + Portal"
  resp_CreateMatrixRoom :: "Portal \<Rightarrow> string + unit"

text \<open>Members of package \<^verbatim>\<open>connector\<close> and of \<^verbatim>\<open>slackid\<close> that the sources use but
  do not contain, the configuration values read, and the order in which Go's
  \<^verbatim>\<open>range\<close> visits the entries of a map (unspecified by the language).\<close>

record connector =
  ParseSlackTimestamp :: "string \<Rightarrow> Time"
  makePortalKey :: "Channel \<Rightarrow> PortalKey"
  makeEventSender :: "string \<Rightarrow> EventSender"
  GetEmoji :: "string \<Rightarrow> string \<times> bool"
  fetchChatInfo :: "string \<Rightarrow> string + ChatInfo"
  resp_GetChatInfo :: "Portal \<Rightarrow> string + ChatInfo"
  CustomEmojiReactions :: bool
  ConversationCount :: int
  map_range :: "(string \<times> Channel) list \<Rightarrow> (string \<times> Channel) list"

section \<open>Outbound command dispatcher (handlematrix.go)\<close>

text \<open>A method call on \<^verbatim>\<open>s.Client\<close>. Through a nil client the library dereferences
  the nil pointer and panics before any request leaves; otherwise the request is
  issued and its answer returned.\<close>

definition client_call ::
  "SlackClient \<Rightarrow> slack_call \<Rightarrow> string + 'a \<Rightarrow> (failure + 'a) \<times> effect list" where
  "client_call s c resp =
     (case Client s of
        None \<Rightarrow> (Inl nil_dereference, [])
      | Some _ \<Rightarrow>
          (case resp of
             Inl e \<Rightarrow> (Inl (Error (Remote e)), [Slack c])
           | Inr v \<Rightarrow> (Inr v, [Slack c])))"

text \<open>The first share record of a channel: \<^verbatim>\<open>info, found := m[channelID]\<close> with
  \<^verbatim>\<open>found && len(info) > 0\<close>, then \<^verbatim>\<open>info[0]\<close>.\<close>

definition first_share :: "(string \<rightharpoonup> ShareFileInfo list) \<Rightarrow> string \<Rightarrow> ShareFileInfo option" where
  "first_share m channelID =
     (case m channelID of
        None \<Rightarrow> None
      | Some [] \<Rightarrow> None
      | Some (info # _) \<Rightarrow> Some info)"

definition share_timestamp :: "File \<Rightarrow> string \<Rightarrow> string" where
  "share_timestamp file channelID =
     (case first_share (Private (Shares file)) channelID of
        Some info \<Rightarrow> Ts info
      | None \<Rightarrow>
          (case first_share (Public (Shares file)) channelID of
             Some info \<Rightarrow> Ts info
           | None \<Rightarrow> []))"

definition sendToSlack ::
  "slack_api \<Rightarrow> SlackClient \<Rightarrow> string \<Rightarrow> ConvertedSlackMessage \<Rightarrow> MatrixMessage option
   \<Rightarrow> (failure + string) \<times> effect list" where
  "sendToSlack api s channelID conv msg =
     (case SendReq conv of
        Some req \<Rightarrow>
          client_call s (PostMessageContext channelID req) (resp_PostMessage api channelID req)
      | None \<Rightarrow>
     (case FileUpload conv of
        Some upload \<Rightarrow>
          (case client_call s (UploadFileV2Context upload) (resp_UploadFileV2 api upload) of
             (Inl f, tr) \<Rightarrow> (Inl f, tr)
           | (Inr file, tr) \<Rightarrow>
               if share_timestamp file channelID \<noteq> []
               then (Inr (share_timestamp file channelID), tr)
               else (case msg of
                       Some _ \<Rightarrow>
                         (Inr [], tr @ [Bridge (AddPendingToSave (UserID s @ '':'' @ file_ID file))])
                     | None \<Rightarrow> (Inr [], tr)))
      | None \<Rightarrow>
     (case FileShare conv of
        Some share \<Rightarrow> client_call s (ShareFile share) (resp_ShareFile api share)
      | None \<Rightarrow> (Inl (Error (ErrorNew ''no message or attachment to send'')), []))))"

definition HandleMatrixMessage ::
  "connector \<Rightarrow> bridge \<Rightarrow> slack_api \<Rightarrow> SlackClient \<Rightarrow> MatrixMessage
   \<Rightarrow> (failure + MatrixMessageResponse) \<times> effect list" where
  "HandleMatrixMessage cn br api s msg =
     (if Client s = None then (Inl (Error ErrNotLoggedIn), [])
      else
        let channelID = snd (ParsePortalID (pk_ID (msg_Portal msg))) in
        if channelID = [] then (Inl (Error (ErrorNew ''invalid channel ID'')), [])
        else
          let conv_call = Bridge (ToSlack (msg_Portal msg) (msg_Content msg)) in
          (case resp_ToSlack br (msg_Portal msg) (msg_Content msg) (msg_ThreadRoot msg) None
                  (msg_OrigSender msg) (IsRealUser s) of
             Inl e \<Rightarrow> (Inl (Error (Remote e)), [conv_call])
           | Inr conv \<Rightarrow>
               (case sendToSlack api s channelID conv (Some msg) of
                  (Inl f, tr) \<Rightarrow> (Inl f, conv_call # tr)
                | (Inr timestamp, tr) \<Rightarrow>
                    if timestamp = []
                    then (Inr \<lparr>DB = None, Pending = True\<rparr>, conv_call # tr)
                    else (Inr \<lparr>DB = Some
                                 \<lparr>db_ID = MakeMessageID (TeamID s) channelID timestamp,
                                  db_SenderID = MakeUserID (TeamID s) (UserID s),
                                  db_Timestamp = ParseSlackTimestamp cn timestamp\<rparr>,
                               Pending = False\<rparr>,
                          conv_call # tr))))"

definition HandleMatrixEdit ::
  "bridge \<Rightarrow> slack_api \<Rightarrow> SlackClient \<Rightarrow> MatrixEdit \<Rightarrow> (failure + unit) \<times> effect list" where
  "HandleMatrixEdit br api s msg =
     (if Client s = None then (Inl (Error ErrNotLoggedIn), [])
      else
        let channelID = snd (ParsePortalID (pk_ID (edit_Portal msg))) in
        if channelID = [] then (Inl (Error (ErrorNew ''invalid channel ID'')), [])
        else
          let conv_call = Bridge (ToSlack (edit_Portal msg) (edit_Content msg)) in
          (case resp_ToSlack br (edit_Portal msg) (edit_Content msg) None
                  (Some (edit_EditTarget msg)) (edit_OrigSender msg) (IsRealUser s) of
             Inl e \<Rightarrow> (Inl (Error (Remote e)), [conv_call])
           | Inr conv \<Rightarrow>
               (case sendToSlack api s channelID conv None of
                  (Inl f, tr) \<Rightarrow> (Inl f, conv_call # tr)
                | (Inr _, tr) \<Rightarrow> (Inr (), conv_call # tr))))"

definition HandleMatrixMessageRemove ::
  "slack_api \<Rightarrow> SlackClient \<Rightarrow> MessageID \<Rightarrow> (failure + unit) \<times> effect list" where
  "HandleMatrixMessageRemove api s targetID =
     (if Client s = None then (Inl (Error ErrNotLoggedIn), [])
      else
        (case ParseMessageID targetID of
           (_, channelID, messageID, ok) \<Rightarrow>
             if \<not> ok then (Inl (Error (ErrorNew ''invalid message ID'')), [])
             else client_call s (DeleteMessageContext channelID messageID)
                    (resp_DeleteMessage api channelID messageID)))"

text \<open>\<^verbatim>\<open>HandleMatrixReaction\<close> returns its named result \<^verbatim>\<open>reaction\<close>, which it never
  assigns: the value is nil on every path, and only the error is modelled.\<close>

definition HandleMatrixReaction ::
  "slack_api \<Rightarrow> SlackClient \<Rightarrow> MessageID \<Rightarrow> EmojiID \<Rightarrow> (failure + unit) \<times> effect list" where
  "HandleMatrixReaction api s targetID emojiID =
     (if Client s = None then (Inl (Error ErrNotLoggedIn), [])
      else
        (case ParseMessageID targetID of
           (_, channelID, messageID, ok) \<Rightarrow>
             if \<not> ok then (Inl (Error (ErrorNew ''invalid message ID'')), [])
             else client_call s (AddReactionContext (emoji_string emojiID) channelID messageID)
                    (resp_AddReaction api (emoji_string emojiID) channelID messageID)))"

definition HandleMatrixReactionRemove ::
  "slack_api \<Rightarrow> SlackClient \<Rightarrow> MessageID \<Rightarrow> EmojiID \<Rightarrow> (failure + unit) \<times> effect list" where
  "HandleMatrixReactionRemove api s targetID emojiID =
     (if Client s = None then (Inl (Error ErrNotLoggedIn), [])
      else
        (case ParseMessageID targetID of
           (_, channelID, messageID, ok) \<Rightarrow>
             if \<not> ok then (Inl (Error (ErrorNew ''invalid message ID'')), [])
             else
               (case client_call s (RemoveReactionContext (emoji_string emojiID) channelID messageID)
                       (resp_RemoveReaction api (emoji_string emojiID) channelID messageID) of
                  (Inl (Error (Remote e)), tr) \<Rightarrow>
                    if e \<noteq> ''reaction'' then (Inl (Error (Remote e)), tr) else (Inr (), tr)
                | (r, tr) \<Rightarrow> (r, tr))))"

text \<open>Marking a conversation read up to the message with identifier \<open>ident\<close>.\<close>

definition mark_read ::
  "slack_api \<Rightarrow> SlackClient \<Rightarrow> MessageID \<Rightarrow> (failure + unit) \<times> effect list" where
  "mark_read api s ident =
     (case ParseMessageID ident of
        (_, channelID, messageTS, ok) \<Rightarrow>
          if \<not> ok then (Inl (Error (ErrorNew ''invalid message ID'')), [])
          else client_call s (MarkConversationContext channelID messageTS)
                 (resp_MarkConversation api channelID messageTS))"

definition HandleMatrixReadReceipt ::
  "bridge \<Rightarrow> slack_api \<Rightarrow> SlackClient \<Rightarrow> MatrixReadReceipt \<Rightarrow> (failure + unit) \<times> effect list" where
  "HandleMatrixReadReceipt br api s msg =
     (if Client s = None then (Inl (Error ErrNotLoggedIn), [])
      else if \<not> IsRealUser s then (Inr (), [])
      else
        (case rr_ExactMessage msg of
           Some exact \<Rightarrow> mark_read api s (db_ID exact)
         | None \<Rightarrow>
             let lookup = Bridge (GetLastPartAtOrBeforeTime (rr_Portal msg) (rr_ReadUpTo msg)) in
             (case resp_GetLastPartAtOrBeforeTime br (rr_Portal msg) (rr_ReadUpTo msg) of
                Inl e \<Rightarrow> (Inl (Error (Remote e)), [lookup])
              | Inr (Some lastMessage) \<Rightarrow>
                  (case mark_read api s (db_ID lastMessage) of (r, tr) \<Rightarrow> (r, lookup # tr))
              | Inr None \<Rightarrow> (Inr (), [lookup]))))"

text \<open>The typing notice goes out over \<^verbatim>\<open>s.RTM\<close>; through a nil stream handle the call
  panics.\<close>

definition HandleMatrixTyping ::
  "SlackClient \<Rightarrow> PortalKey \<Rightarrow> (failure + unit) \<times> effect list" where
  "HandleMatrixTyping s portal =
     (if Client s = None then (Inl (Error ErrNotLoggedIn), [])
      else if \<not> IsRealUser s then (Inr (), [])
      else
        let channelID = snd (ParsePortalID (pk_ID portal)) in
        if channelID = [] then (Inr (), [])
        else (case RTM s of
                None \<Rightarrow> (Inl nil_dereference, [])
              | Some _ \<Rightarrow> (Inr (), [Slack (RTMSendTyping channelID)])))"

text \<open>\<^verbatim>\<open>HandleMatrixRoomName\<close> and \<^verbatim>\<open>HandleMatrixRoomTopic\<close> return
  \<^verbatim>\<open>(err == nil, err)\<close>: \<open>Inr True\<close> on success, the error otherwise.\<close>

definition HandleMatrixRoomName ::
  "slack_api \<Rightarrow> SlackClient \<Rightarrow> PortalKey \<Rightarrow> string \<Rightarrow> (failure + bool) \<times> effect list" where
  "HandleMatrixRoomName api s portal name =
     (let channelID = snd (ParsePortalID (pk_ID portal)) in
      if channelID = [] then (Inl (Error (ErrorNew ''invalid channel ID'')), [])
      else
        (case client_call s (RenameConversationContext channelID name)
                (resp_RenameConversation api channelID name) of
           (Inl f, tr) \<Rightarrow> (Inl f, tr)
         | (Inr _, tr) \<Rightarrow> (Inr True, tr)))"

definition HandleMatrixRoomTopic ::
  "slack_api \<Rightarrow> SlackClient \<Rightarrow> PortalKey \<Rightarrow> string \<Rightarrow> (failure + bool) \<times> effect list" where
  "HandleMatrixRoomTopic api s portal topic =
     (let channelID = snd (ParsePortalID (pk_ID portal)) in
      if channelID = [] then (Inl (Error (ErrorNew ''invalid channel ID'')), [])
      else
        (case client_call s (SetTopicOfConversationContext channelID topic)
                (resp_SetTopicOfConversation api channelID topic) of
           (Inl f, tr) \<Rightarrow> (Inl f, tr)
         | (Inr _, tr) \<Rightarrow> (Inr True, tr)))"

section \<open>Event-meta builder and event translator (handleslack.go)\<close>

text \<open>\<^verbatim>\<open>fmt.Sprintf("%d", code)\<close>: the decimal digits of an integer, least
  significant digit first into an accumulator, with a sign for a negative one.\<close>

definition digit :: "nat \<Rightarrow> char" where
  "digit d = char_of (d + of_char (CHR ''0''))"

function decimal :: "nat \<Rightarrow> string \<Rightarrow> string" where
  "decimal n acc =
     (let acc' = digit (n mod 10) # acc
      in if n div 10 = 0 then acc' else decimal (n div 10) acc')"
  by pat_completeness auto
termination
  by (relation "measure fst") auto

definition Sprintf_d :: "int \<Rightarrow> string" where
  "Sprintf_d i = (if 0 \<le> i then decimal (nat i) [] else CHR ''-'' # decimal (nat (- i)) [])"

text \<open>\<^verbatim>\<open>makeEventMeta\<close> returns its two named results together, as Go does: the meta
  built so far and the error. When the receiver lookup itself fails, the portal key it
  returned beside the error is taken to be the zero key.\<close>

definition fill_meta ::
  "connector \<Rightarrow> SlackClient \<Rightarrow> string \<Rightarrow> string \<Rightarrow> string \<Rightarrow> SlackEventMeta \<Rightarrow> SlackEventMeta" where
  "fill_meta cn s channelID senderID timestamp meta =
     (let meta1 = (if senderID \<noteq> [] then meta\<lparr>meta_Sender := makeEventSender cn senderID\<rparr>
                   else meta)
      in if timestamp \<noteq> []
         then meta1\<lparr>meta_ID := MakeMessageID (TeamID s) channelID timestamp,
                    meta_Timestamp := ParseSlackTimestamp cn timestamp\<rparr>
         else meta1)"

definition makeEventMeta ::
  "connector \<Rightarrow> bridge \<Rightarrow> SlackClient \<Rightarrow> string \<Rightarrow> Channel option \<Rightarrow> string \<Rightarrow> string
   \<Rightarrow> (SlackEventMeta \<times> error option) \<times> effect list" where
  "makeEventMeta cn br s channelID channel senderID timestamp =
     (case channel of
        Some ch \<Rightarrow>
          ((fill_meta cn s channelID senderID timestamp
              (zero_SlackEventMeta\<lparr>meta_PortalKey := makePortalKey cn ch\<rparr>), None), [])
      | None \<Rightarrow>
          let portalID = MakePortalID (TeamID s) channelID;
              lookup = Bridge (FindPortalReceiver portalID (LoginID s))
          in (case resp_FindPortalReceiver br portalID (LoginID s) of
                Inl e \<Rightarrow>
                  ((zero_SlackEventMeta,
                    Some (ErrorWrap ''failed to find portal receiver'' (Remote e))), [lookup])
              | Inr key \<Rightarrow>
                  if IsEmpty key
                  then ((zero_SlackEventMeta\<lparr>meta_PortalKey := key\<rparr>,
                         Some (ErrorNew (''unknown channel '' @ channelID))), [lookup])
                  else ((fill_meta cn s channelID senderID timestamp
                           (zero_SlackEventMeta\<lparr>meta_PortalKey := key\<rparr>), None), [lookup])))"

definition wrapReaction ::
  "connector \<Rightarrow> SlackClient \<Rightarrow> SlackEventMeta \<Rightarrow> string \<Rightarrow> bool \<Rightarrow> ReactionItem \<Rightarrow> RemoteEvent" where
  "wrapReaction cn s meta reaction add target =
     (let shortcode = '':'' @ reaction @ '':'';
          emoji = fst (GetEmoji cn reaction);
          isImage = snd (GetEmoji cn reaction)
      in SlackReaction
           (meta\<lparr>meta_Type := (if add then RemoteEventReaction else RemoteEventReactionRemove)\<rparr>)
           (MakeMessageID (TeamID s) (item_Channel target) (item_Timestamp target))
           (EmojiID reaction)
           (if isImage \<and> \<not> CustomEmojiReactions cn then shortcode else emoji)
           \<lparr>extra_shortcode = shortcode, extra_name = reaction,
            extra_mxc = (if isImage then Some emoji else None)\<rparr>)"

definition wrapTyping :: "SlackEventMeta \<Rightarrow> RemoteEvent" where
  "wrapTyping meta = SlackTyping (meta\<lparr>meta_Type := RemoteEventTyping\<rparr>)"

definition wrapReadReceipt :: "SlackEventMeta \<Rightarrow> RemoteEvent" where
  "wrapReadReceipt meta = SlackReadReceipt (meta\<lparr>meta_Type := RemoteEventReadReceipt\<rparr>)"

definition wrapMemberChange ::
  "SlackEventMeta \<Rightarrow> EventSender \<Rightarrow> Membership \<Rightarrow> Membership \<Rightarrow> RemoteEvent" where
  "wrapMemberChange meta sender newMembership prevMembership =
     SlackChatInfoChange (meta\<lparr>meta_Type := RemoteEventChatInfoChange\<rparr>)
       \<lparr>cic_ChatInfo = None,
        cic_MemberChanges = Some [\<lparr>cm_EventSender = sender, cm_Membership = newMembership,
                                   cm_PrevMembership = prevMembership\<rparr>]\<rparr>"

text \<open>\<^verbatim>\<open>wrapEvent\<close> returns \<^verbatim>\<open>(wrapped, metaErr)\<close>: the wrapped event is built even
  when the meta could not be, and the caller looks at the error first.\<close>

definition with_meta ::
  "(SlackEventMeta \<times> error option) \<times> effect list \<Rightarrow> (SlackEventMeta \<Rightarrow> RemoteEvent)
   \<Rightarrow> (RemoteEvent option \<times> error option) \<times> effect list" where
  "with_meta r wrap = (case r of ((meta, metaErr), tr) \<Rightarrow> ((Some (wrap meta), metaErr), tr))"

fun wrapEvent ::
  "connector \<Rightarrow> bridge \<Rightarrow> SlackClient \<Rightarrow> slack_event
   \<Rightarrow> (RemoteEvent option \<times> error option) \<times> effect list" where
  "wrapEvent cn br s (MessageEv evt) =
     with_meta (makeEventMeta cn br s (me_Channel evt) None (me_User evt) (me_Timestamp evt))
       (\<lambda>meta. SlackMessage (meta\<lparr>meta_Type := RemoteEventMessage, meta_CreatePortal := True\<rparr>) evt)"
| "wrapEvent cn br s (ReactionAddedEvent user item reaction eventTimestamp) =
     with_meta (makeEventMeta cn br s (item_Channel item) None user eventTimestamp)
       (\<lambda>meta. wrapReaction cn s meta reaction True item)"
| "wrapEvent cn br s (ReactionRemovedEvent user item reaction eventTimestamp) =
     with_meta (makeEventMeta cn br s (item_Channel item) None user eventTimestamp)
       (\<lambda>meta. wrapReaction cn s meta reaction False item)"
| "wrapEvent cn br s (UserTypingEvent channel user) =
     with_meta (makeEventMeta cn br s channel None user []) wrapTyping"
| "wrapEvent cn br s (ChannelMarkedEvent channel timestamp) =
     with_meta (makeEventMeta cn br s channel None (UserID s) timestamp) wrapReadReceipt"
| "wrapEvent cn br s (IMMarkedEvent channel timestamp) =
     with_meta (makeEventMeta cn br s channel None (UserID s) timestamp) wrapReadReceipt"
| "wrapEvent cn br s (GroupMarkedEvent channel timestamp) =
     with_meta (makeEventMeta cn br s channel None (UserID s) timestamp) wrapReadReceipt"
| "wrapEvent cn br s (ChannelJoinedEvent channel) =
     with_meta (makeEventMeta cn br s (ch_ID channel) (Some channel) (UserID s) [])
       (\<lambda>meta. wrapMemberChange (meta\<lparr>meta_CreatePortal := True\<rparr>) (meta_Sender meta)
                  MembershipJoin MembershipNone)"
| "wrapEvent cn br s (ChannelLeftEvent channel timestamp) =
     with_meta (makeEventMeta cn br s channel None (UserID s) timestamp)
       (\<lambda>meta. wrapMemberChange meta (meta_Sender meta) MembershipLeave MembershipJoin)"
| "wrapEvent cn br s (GroupJoinedEvent channel) =
     with_meta (makeEventMeta cn br s (ch_ID channel) (Some channel) (UserID s) [])
       (\<lambda>meta. wrapMemberChange (meta\<lparr>meta_CreatePortal := True\<rparr>) (meta_Sender meta)
                  MembershipJoin MembershipNone)"
| "wrapEvent cn br s (GroupLeftEvent channel timestamp) =
     with_meta (makeEventMeta cn br s channel None (UserID s) timestamp)
       (\<lambda>meta. wrapMemberChange meta (meta_Sender meta) MembershipLeave MembershipJoin)"
| "wrapEvent cn br s (MemberJoinedChannelEvent channel user) =
     with_meta (makeEventMeta cn br s channel None user [])
       (\<lambda>meta. wrapMemberChange meta (meta_Sender meta) MembershipJoin MembershipNone)"
| "wrapEvent cn br s (MemberLeftChannelEvent channel user) =
     with_meta (makeEventMeta cn br s channel None user [])
       (\<lambda>meta. wrapMemberChange meta (meta_Sender meta) MembershipLeave MembershipJoin)"
| "wrapEvent cn br s (ChannelUpdateEvent channel timestamp) =
     (case makeEventMeta cn br s channel None [] timestamp of
        ((meta, metaErr), tr) \<Rightarrow>
          (case fetchChatInfo cn channel of
             Inl e \<Rightarrow>
               ((None, Some (ErrorWrap ''failed to get chat info'' (Remote e))),
                tr @ [Bridge (FetchChatInfo channel)])
           | Inr fullChatInfo \<Rightarrow>
               ((Some (SlackChatInfoChange
                         (meta\<lparr>meta_Type := RemoteEventChatInfoChange, meta_CreatePortal := True\<rparr>)
                         \<lparr>cic_ChatInfo = Some fullChatInfo, cic_MemberChanges = None\<rparr>),
                 metaErr),
                tr @ [Bridge (FetchChatInfo channel)])))"
| "wrapEvent cn br s _ = ((None, None), [])"

text \<open>\<^verbatim>\<open>Disconnect\<close> and \<^verbatim>\<open>invalidateSession\<close> mutate the session; the model returns
  the new one. Errors of \<^verbatim>\<open>rtm.Disconnect\<close> and of \<^verbatim>\<open>UserLogin.Save\<close> are only
  logged.\<close>

definition Disconnect :: "SlackClient \<Rightarrow> SlackClient \<times> effect list" where
  "Disconnect s =
     (case RTM s of
        Some _ \<Rightarrow> (s\<lparr>RTM := None, Client := None\<rparr>, [Slack RTMDisconnect])
      | None \<Rightarrow> (s\<lparr>Client := None\<rparr>, []))"

definition invalidateSession :: "SlackClient \<Rightarrow> BridgeState \<Rightarrow> SlackClient \<times> effect list" where
  "invalidateSession s state =
     (let extra = AList.update ''cookie_token'' [] (AList.update ''token'' [] (Extra s));
          s1 = s\<lparr>Extra := extra\<rparr>
      in case Disconnect s1 of
           (s2, tr) \<Rightarrow>
             (s2, [Bridge (UserLoginSave extra)] @ tr @ [Bridge (BridgeStateSend state)]))"

fun HandleSlackEvent ::
  "connector \<Rightarrow> bridge \<Rightarrow> SlackClient \<Rightarrow> slack_event \<Rightarrow> SlackClient \<times> effect list" where
  "HandleSlackEvent cn br s (ConnectingEvent attempt connectionCount) =
     (s, [Bridge (BridgeStateSend
            \<lparr>bs_StateEvent = StateConnecting, bs_Error = [], bs_Message = []\<rparr>)])"
| "HandleSlackEvent cn br s (ConnectedEvent teamID userID) =
     (if teamID \<noteq> TeamID s \<or> userID \<noteq> UserID s
      then invalidateSession s
             \<lparr>bs_StateEvent = StateUnknownError, bs_Error = ''slack-id-mismatch'',
              bs_Message = []\<rparr>
      else (s, [Bridge (BridgeStateSend
                  \<lparr>bs_StateEvent = StateConnected, bs_Error = [], bs_Message = []\<rparr>)]))"
| "HandleSlackEvent cn br s HelloEvent = (s, [])"
| "HandleSlackEvent cn br s InvalidAuthEvent =
     invalidateSession s
       \<lparr>bs_StateEvent = StateBadCredentials, bs_Error = ''slack-invalid-auth'',
        bs_Message = []\<rparr>"
| "HandleSlackEvent cn br s (RTMError code msg) =
     (s, [Bridge (BridgeStateSend
            \<lparr>bs_StateEvent = StateUnknownError,
             bs_Error = ''slack-rtm-error-'' @ Sprintf_d code,
             bs_Message = Sprintf_d code @ '': '' @ msg\<rparr>)])"
| "HandleSlackEvent cn br s EmojiChangedEvent = (s, [])"
| "HandleSlackEvent cn br s FileSharedEvent = (s, [])"
| "HandleSlackEvent cn br s FilePublicEvent = (s, [])"
| "HandleSlackEvent cn br s FilePrivateEvent = (s, [])"
| "HandleSlackEvent cn br s FileCreatedEvent = (s, [])"
| "HandleSlackEvent cn br s FileChangeEvent = (s, [])"
| "HandleSlackEvent cn br s FileDeletedEvent = (s, [])"
| "HandleSlackEvent cn br s DesktopNotificationEvent = (s, [])"
| "HandleSlackEvent cn br s ReconnectUrlEvent = (s, [])"
| "HandleSlackEvent cn br s LatencyReport = (s, [])"
| "HandleSlackEvent cn br s (UnrecognizedEvent name) = (s, [])"
| "HandleSlackEvent cn br s evt =
     (case wrapEvent cn br s evt of
        ((wrapped, Some err), tr) \<Rightarrow> (s, tr)
      | ((wrapped, None), tr) \<Rightarrow> (s, tr @ [Bridge (QueueRemoteEvent wrapped)]))"

text \<open>The statuses and the normalized events that a trace hands to the bridge.\<close>

fun statuses :: "effect list \<Rightarrow> BridgeState list" where
  "statuses [] = []"
| "statuses (Bridge (BridgeStateSend st) # tr) = st # statuses tr"
| "statuses (_ # tr) = statuses tr"

fun queued :: "effect list \<Rightarrow> RemoteEvent option list" where
  "queued [] = []"
| "queued (Bridge (QueueRemoteEvent e) # tr) = e # queued tr"
| "queued (_ # tr) = queued tr"

subsection \<open>The methods of a wrapped message event\<close>

text \<open>The message subtypes of the Slack client library.\<close>

definition MsgSubTypeMessageChanged :: string where "MsgSubTypeMessageChanged = ''message_changed''"
definition MsgSubTypeMessageDeleted :: string where "MsgSubTypeMessageDeleted = ''message_deleted''"
definition MsgSubTypeChannelTopic :: string where "MsgSubTypeChannelTopic = ''channel_topic''"
definition MsgSubTypeChannelPurpose :: string where "MsgSubTypeChannelPurpose = ''channel_purpose''"
definition MsgSubTypeChannelName :: string where "MsgSubTypeChannelName = ''channel_name''"
definition MsgSubTypeGroupTopic :: string where "MsgSubTypeGroupTopic = ''group_topic''"
definition MsgSubTypeGroupPurpose :: string where "MsgSubTypeGroupPurpose = ''group_purpose''"
definition MsgSubTypeGroupName :: string where "MsgSubTypeGroupName = ''group_name''"
definition MsgSubTypeMessageReplied :: string where "MsgSubTypeMessageReplied = ''message_replied''"
definition MsgSubTypeGroupJoin :: string where "MsgSubTypeGroupJoin = ''group_join''"
definition MsgSubTypeGroupLeave :: string where "MsgSubTypeGroupLeave = ''group_leave''"
definition MsgSubTypeChannelJoin :: string where "MsgSubTypeChannelJoin = ''channel_join''"
definition MsgSubTypeChannelLeave :: string where "MsgSubTypeChannelLeave = ''channel_leave''"

text \<open>\<^verbatim>\<open>(*SlackMessage).GetType\<close> overrides the type stored in the meta; the other
  wrapped events answer with the meta's type.\<close>

definition SlackMessage_GetType :: "MessageEvent \<Rightarrow> RemoteEventType" where
  "SlackMessage_GetType evt =
     (let subType = me_SubType evt in
      if subType = MsgSubTypeMessageChanged then RemoteEventEdit
      else if subType = MsgSubTypeMessageDeleted then RemoteEventMessageRemove
      else if subType = MsgSubTypeChannelTopic \<or> subType = MsgSubTypeChannelPurpose
            \<or> subType = MsgSubTypeChannelName \<or> subType = MsgSubTypeGroupTopic
            \<or> subType = MsgSubTypeGroupPurpose \<or> subType = MsgSubTypeGroupName
      then RemoteEventChatInfoChange
      else if subType = MsgSubTypeMessageReplied \<or> subType = MsgSubTypeGroupJoin
            \<or> subType = MsgSubTypeGroupLeave \<or> subType = MsgSubTypeChannelJoin
            \<or> subType = MsgSubTypeChannelLeave
      then RemoteEventUnknown
      else RemoteEventMessage)"

fun GetType :: "RemoteEvent \<Rightarrow> RemoteEventType" where
  "GetType (SlackMessage meta evt) = SlackMessage_GetType evt"
| "GetType (SlackReaction meta target emojiID emoji extra) = meta_Type meta"
| "GetType (SlackTyping meta) = meta_Type meta"
| "GetType (SlackReadReceipt meta) = meta_Type meta"
| "GetType (SlackChatInfoChange meta change) = meta_Type meta"

datatype ConvertedEdit = ConvertedEdit string

text \<open>\<^verbatim>\<open>(*SlackMessage).ConvertEdit\<close>: its body is \<^verbatim>\<open>panic("implement me")\<close>.\<close>

definition ConvertEdit ::
  "SlackEventMeta \<Rightarrow> MessageEvent \<Rightarrow> Portal \<Rightarrow> DbMessage list \<Rightarrow> failure + ConvertedEdit" where
  "ConvertEdit meta evt portal existing = Inl (Panic ''implement me'')"

definition SlackMessage_GetTimestamp ::
  "connector \<Rightarrow> SlackEventMeta \<Rightarrow> MessageEvent \<Rightarrow> failure + Time" where
  "SlackMessage_GetTimestamp cn meta evt =
     (if me_SubType evt = MsgSubTypeMessageChanged
      then (case me_SubMessage evt of
              None \<Rightarrow> Inl nil_dereference
            | Some ts \<Rightarrow> Inr (ParseSlackTimestamp cn ts))
      else if me_SubType evt = MsgSubTypeMessageDeleted
      then Inr (ParseSlackTimestamp cn (me_DeletedTimestamp evt))
      else Inr (meta_Timestamp meta))"

definition GetTargetMessage :: "SlackEventMeta \<Rightarrow> MessageEvent \<Rightarrow> MessageID" where
  "GetTargetMessage meta evt = meta_ID meta"

definition SlackMessage_GetChatInfoChange ::
  "SlackEventMeta \<Rightarrow> MessageEvent \<Rightarrow> failure + ChatInfoChange option" where
  "SlackMessage_GetChatInfoChange meta evt = Inr None"

section \<open>Channel reconciliation (SyncChannels)\<close>

text \<open>\<^verbatim>\<open>strings.HasPrefix\<close>.\<close>

definition HasPrefix :: "string \<Rightarrow> string \<Rightarrow> bool" where
  "HasPrefix str pre = (take (length pre) str = pre)"

text \<open>\<^verbatim>\<open>token, _ := s.UserLogin.Metadata.Extra["token"].(string)\<close>: the empty string
  when the entry is absent.\<close>

definition stored_token :: "SlackClient \<Rightarrow> string" where
  "stored_token s = (case map_of (Extra s) ''token'' of Some token \<Rightarrow> token | None \<Rightarrow> [])"

text \<open>The test under the comment \<^verbatim>\<open>// Skip non-"open" DMs\<close>: a direct-message
  conversation whose latest message is absent or has an empty subtype.\<close>

definition skipped_DM :: "Channel \<Rightarrow> bool" where
  "skipped_DM channel = (IsIM channel \<and> (Latest channel = None \<or> Latest channel = Some []))"

text \<open>\<^verbatim>\<open>serverInfo\<close> is a Go map from channel id to channel, modelled as an
  association list with one entry per key. The inner loop stores a chunk; each
  iteration has its own \<^verbatim>\<open>channel\<close> variable (Go 1.22 loop semantics), so every entry
  keeps the channel it was stored with.\<close>

type_synonym serverInfo = "(string \<times> Channel) list"

fun store_chunk :: "Channel list \<Rightarrow> serverInfo \<Rightarrow> serverInfo" where
  "store_chunk [] serverInfo = serverInfo"
| "store_chunk (channel # chunk) serverInfo =
     store_chunk chunk
       (if skipped_DM channel then serverInfo
        else AList.update (ch_ID channel) channel serverInfo)"

text \<open>The paging loop \<^verbatim>\<open>for totalLimit > 0\<close>. An error of the API ends the whole sync
  (\<open>Inl\<close>); otherwise the loop ends when the budget is used up, the cursor is empty
  or the chunk is empty.\<close>

function fetch_conversations ::
  "slack_api \<Rightarrow> SlackClient \<Rightarrow> int \<Rightarrow> string \<Rightarrow> serverInfo
   \<Rightarrow> (failure + serverInfo) \<times> effect list" where
  "fetch_conversations api s totalLimit cursor serverInfo =
     (if totalLimit \<le> 0 then (Inr serverInfo, [])
      else
        let reqLimit = (if totalLimit > 200 then 100 else totalLimit) in
        (case client_call s (GetConversationsForUserContext reqLimit cursor)
                (resp_GetConversationsForUser api reqLimit cursor) of
           (Inl f, tr) \<Rightarrow> (Inl f, tr)
         | (Inr (channelsChunk, nextCursor), tr) \<Rightarrow>
             if nextCursor = [] \<or> channelsChunk = []
             then (Inr (store_chunk channelsChunk serverInfo), tr)
             else (case fetch_conversations api s (totalLimit - int (length channelsChunk))
                          nextCursor (store_chunk channelsChunk serverInfo) of
                     (r, tr') \<Rightarrow> (r, tr @ tr'))))"
  by pat_completeness auto
termination
  by (relation "measure (\<lambda>(api, s, totalLimit, cursor, serverInfo). nat totalLimit)") auto

text \<open>The loop over the login's known portals: a portal whose id carries no channel
  id is passed over; a portal that cannot be loaded is logged and passed over; a
  portal with a local room has its metadata fetched again (and applied when the fetch
  succeeds) and its channel removed from \<^verbatim>\<open>serverInfo\<close>.\<close>

fun refresh_existing ::
  "connector \<Rightarrow> bridge \<Rightarrow> PortalKey list \<Rightarrow> serverInfo \<Rightarrow> serverInfo \<times> effect list" where
  "refresh_existing cn br [] serverInfo = (serverInfo, [])"
| "refresh_existing cn br (userPortal # userPortals) serverInfo =
     (let channelID = snd (ParsePortalID (pk_ID userPortal)) in
      if channelID = [] then refresh_existing cn br userPortals serverInfo
      else
        (case resp_GetExistingPortalByID br userPortal of
           Inl e \<Rightarrow>
             (case refresh_existing cn br userPortals serverInfo of
                (si, tr) \<Rightarrow> (si, Bridge (GetExistingPortalByID userPortal) # tr))
         | Inr portal \<Rightarrow>
             if MXID portal \<noteq> []
             then
               (case refresh_existing cn br userPortals (AList.delete channelID serverInfo) of
                  (si, tr) \<Rightarrow>
                    (si, [Bridge (GetExistingPortalByID userPortal), Bridge (GetChatInfo portal)]
                         @ (case resp_GetChatInfo cn portal of
                              Inl e \<Rightarrow> []
                            | Inr info \<Rightarrow> [Bridge (UpdateInfo portal info)])
                         @ tr))
             else
               (case refresh_existing cn br userPortals serverInfo of
                  (si, tr) \<Rightarrow> (si, Bridge (GetExistingPortalByID userPortal) # tr))))"

text \<open>The remaining channels: the values of \<^verbatim>\<open>serverInfo\<close> in the order Go's
  \<^verbatim>\<open>range\<close> yields them, then \<^verbatim>\<open>slices.SortFunc\<close> with
  \<^verbatim>\<open>cmp.Compare(a.LastRead, b.LastRead)\<close>. \<^verbatim>\<open>LastRead\<close> is a string and Go compares
  strings bytewise, which is the lexicographic order on character lists.\<close>

definition remainingChannels :: "connector \<Rightarrow> serverInfo \<Rightarrow> Channel list" where
  "remainingChannels cn serverInfo = sort_key LastRead (map snd (map_range cn serverInfo))"

fun create_rooms :: "connector \<Rightarrow> bridge \<Rightarrow> Channel list \<Rightarrow> effect list" where
  "create_rooms cn br [] = []"
| "create_rooms cn br (ch # chs) =
     (case resp_GetPortalByID br (makePortalKey cn ch) of
        Inl e \<Rightarrow> Bridge (GetPortalByID (makePortalKey cn ch)) # create_rooms cn br chs
      | Inr portal \<Rightarrow>
          Bridge (GetPortalByID (makePortalKey cn ch)) # Bridge (CreateMatrixRoom portal)
            # create_rooms cn br chs)"

text \<open>\<^verbatim>\<open>SyncChannels\<close> returns nothing: it runs to its end, returns early after logging
  an error, or panics.\<close>

datatype sync_outcome = Completed | ReturnedEarly error | Panicked string

definition SyncChannels ::
  "connector \<Rightarrow> bridge \<Rightarrow> slack_api \<Rightarrow> SlackClient \<Rightarrow> sync_outcome \<times> effect list" where
  "SyncChannels cn br api s =
     (case (if \<not> HasPrefix (stored_token s) ''xoxs''
            then fetch_conversations api s (ConversationCount cn) [] []
            else (Inr [], [])) of
        (Inl (Panic p), tr) \<Rightarrow> (Panicked p, tr)
      | (Inl (Error e), tr) \<Rightarrow> (ReturnedEarly e, tr)
      | (Inr serverInfo, tr) \<Rightarrow>
          (case resp_GetAllForLogin br of
             Inl e \<Rightarrow> (ReturnedEarly (Remote e), tr @ [Bridge GetAllForLogin])
           | Inr userPortals \<Rightarrow>
               (case refresh_existing cn br userPortals serverInfo of
                  (serverInfo', tr') \<Rightarrow>
                    (Completed,
                     tr @ [Bridge GetAllForLogin] @ tr'
                       @ create_rooms cn br (remainingChannels cn serverInfo')))))"

text \<open>Read off a trace: the portal keys looked up for creation, the portals whose
  room creation was requested, the portals whose metadata was fetched again, and
  the metadata applied to them.\<close>

fun visited :: "effect list \<Rightarrow> PortalKey list" where
  "visited [] = []"
| "visited (Bridge (GetPortalByID key) # tr) = key # visited tr"
| "visited (_ # tr) = visited tr"

fun created :: "effect list \<Rightarrow> Portal list" where
  "created [] = []"
| "created (Bridge (CreateMatrixRoom portal) # tr) = portal # created tr"
| "created (_ # tr) = created tr"

fun refreshed :: "effect list \<Rightarrow> Portal list" where
  "refreshed [] = []"
| "refreshed (Bridge (GetChatInfo portal) # tr) = portal # refreshed tr"
| "refreshed (_ # tr) = refreshed tr"

fun updated :: "effect list \<Rightarrow> (Portal \<times> ChatInfo) list" where
  "updated [] = []"
| "updated (Bridge (UpdateInfo portal info) # tr) = (portal, info) # updated tr"
| "updated (_ # tr) = updated tr"

text \<open>The known portals of the login that have a local room, as the second loop finds
  them, and their channel ids.\<close>

fun materialized :: "bridge \<Rightarrow> PortalKey list \<Rightarrow> (string \<times> Portal) list" where
  "materialized br [] = []"
| "materialized br (userPortal # userPortals) =
     (let channelID = snd (ParsePortalID (pk_ID userPortal)) in
      if channelID = [] then materialized br userPortals
      else (case resp_GetExistingPortalByID br userPortal of
              Inl e \<Rightarrow> materialized br userPortals
            | Inr portal \<Rightarrow>
                if MXID portal \<noteq> [] then (channelID, portal) # materialized br userPortals
                else materialized br userPortals))"

subsection \<open>Stating what the sync fetched\<close>

text \<open>The page of channels that the API answers to a conversation-list request.\<close>

fun answered_chunk :: "slack_api \<Rightarrow> slack_call \<Rightarrow> Channel list" where
  "answered_chunk api (GetConversationsForUserContext limit cursor) =
     (case resp_GetConversationsForUser api limit cursor of
        Inl e \<Rightarrow> []
      | Inr (chunk, nextCursor) \<Rightarrow> chunk)"
| "answered_chunk api _ = []"

text \<open>A list of requests pages through the conversation list with a budget of
  \<open>totalLimit\<close> conversations from \<open>cursor\<close> on: while the budget is positive a page
  is requested at the current cursor (with the whole budget as page size, or 100 when
  the budget exceeds 200), the request succeeds, and the next request starts at the
  cursor the answer names with the budget reduced by the size of the page; the list
  ends with the budget, with an empty next cursor, or with an empty page.\<close>

fun paged_requests :: "slack_api \<Rightarrow> int \<Rightarrow> string \<Rightarrow> slack_call list \<Rightarrow> bool" where
  "paged_requests api totalLimit cursor [] = (totalLimit \<le> 0)"
| "paged_requests api totalLimit cursor (call # calls) =
     (0 < totalLimit
      \<and> call = GetConversationsForUserContext (if 200 < totalLimit then 100 else totalLimit) cursor
      \<and> (case resp_GetConversationsForUser api (if 200 < totalLimit then 100 else totalLimit)
                 cursor of
            Inl e \<Rightarrow> False
          | Inr (chunk, nextCursor) \<Rightarrow>
              if nextCursor = [] \<or> chunk = [] then calls = []
              else paged_requests api (totalLimit - int (length chunk)) nextCursor calls))"

text \<open>The candidate for a channel id among the fetched channels: the last fetched
  channel of that id among those that are not a direct-message conversation whose
  latest message is absent or has an empty subtype.\<close>

definition candidates :: "Channel list \<Rightarrow> string \<rightharpoonup> Channel" where
  "candidates fetched =
     map_of (rev (map (\<lambda>ch. (ch_ID ch, ch))
                    (filter (\<lambda>ch. \<not> (IsIM ch \<and> (Latest ch = None \<or> Latest ch = Some [])))
                       fetched)))"

section \<open>A concrete session and concrete collaborators\<close>

text \<open>A logged-in session of user \<open>U2147483697\<close> in team \<open>T024BE7LD\<close>, a Slack API
  that accepts every request, and a bridge that knows the channel \<open>C061EG9SL\<close>. The
  closed instances of the theorems below are evaluated on them.\<close>

definition demo_session :: SlackClient where
  "demo_session =
     \<lparr>Client = Some (ClientHandle ''xoxc-1'' ''d-1''), RTM = Some RTMHandle,
      UserID = ''U2147483697'', TeamID = ''T024BE7LD'', IsRealUser = True,
      Extra = [(''token'', ''xoxc-1''), (''cookie_token'', ''d-1'')],
      LoginID = ''T024BE7LD-U2147483697''\<rparr>"

definition demo_file :: File where
  "demo_file = \<lparr>file_ID = ''F0S43PZDF'', Shares = \<lparr>Public = Map.empty, Private = Map.empty\<rparr>\<rparr>"

definition demo_general :: Channel where
  "demo_general =
     \<lparr>ch_ID = ''C061EG9SL'', IsIM = False, Latest = None, LastRead = ''1355517523.000005''\<rparr>"

definition demo_random :: Channel where
  "demo_random =
     \<lparr>ch_ID = ''C024BE91L'', IsIM = False, Latest = None, LastRead = ''1255517523.000001''\<rparr>"

definition demo_dm :: Channel where
  "demo_dm =
     \<lparr>ch_ID = ''D024BFF1M'', IsIM = True, Latest = None, LastRead = ''1155517523.000001''\<rparr>"

definition demo_announce :: Channel where
  "demo_announce =
     \<lparr>ch_ID = ''C0G9QF9GW'', IsIM = False, Latest = Some [], LastRead = ''1455517523.000001''\<rparr>"

definition demo_channels :: "Channel list" where
  "demo_channels = [demo_general, demo_random, demo_dm, demo_announce]"

definition demo_api :: slack_api where
  "demo_api =
     \<lparr>resp_PostMessage = (\<lambda>_ _. Inr ''1355517523.000005''),
      resp_UploadFileV2 = (\<lambda>_. Inr demo_file),
      resp_ShareFile = (\<lambda>_. Inr ''1355517529.000007''),
      resp_DeleteMessage = (\<lambda>_ _. Inr ()),
      resp_AddReaction = (\<lambda>_ _ _. Inr ()),
      resp_RemoveReaction = (\<lambda>_ _ _. Inr ()),
      resp_MarkConversation = (\<lambda>_ _. Inr ()),
      resp_RenameConversation = (\<lambda>_ _. Inr ()),
      resp_SetTopicOfConversation = (\<lambda>_ _. Inr ()),
      resp_GetConversationsForUser = (\<lambda>_ _. Inr (demo_channels, [])),
      resp_RTMDisconnect = Inr ()\<rparr>"

definition demo_portal :: PortalKey where
  "demo_portal = \<lparr>pk_ID = ''T024BE7LD-C061EG9SL'', pk_Receiver = ''T024BE7LD-U2147483697''\<rparr>"

definition demo_conv :: ConvertedSlackMessage where
  "demo_conv =
     \<lparr>SendReq = Some (MsgOption ''hello''),
      FileUpload = Some (UploadFileV2Parameters ''photo.png''),
      FileShare = Some (ShareFileParams ''F0S43PZDF'')\<rparr>"

definition demo_upload_conv :: ConvertedSlackMessage where
  "demo_upload_conv =
     \<lparr>SendReq = None, FileUpload = Some (UploadFileV2Parameters ''photo.png''),
      FileShare = None\<rparr>"

definition demo_bridge :: bridge where
  "demo_bridge =
     \<lparr>resp_ToSlack = (\<lambda>_ _ _ _ _ _. Inr demo_upload_conv),
      resp_GetLastPartAtOrBeforeTime = (\<lambda>_ _. Inr None),
      resp_FindPortalReceiver =
        (\<lambda>portalID _. if portalID = ''T024BE7LD-C061EG9SL'' then Inr demo_portal
                        else Inr zero_PortalKey),
      resp_Save = Inr (),
      resp_GetAllForLogin = Inr [demo_portal],
      resp_GetExistingPortalByID = (\<lambda>key. Inr \<lparr>portal_Key = key, MXID = ''!general:example.org''\<rparr>),
      resp_GetPortalByID = (\<lambda>key. Inr \<lparr>portal_Key = key, MXID = []\<rparr>),
      resp_CreateMatrixRoom = (\<lambda>_. Inr ())\<rparr>"

definition demo_connector :: connector where
  "demo_connector =
     \<lparr>ParseSlackTimestamp = (\<lambda>_. Some 1355517523),
      makePortalKey = (\<lambda>ch. \<lparr>pk_ID = MakePortalID ''T024BE7LD'' (ch_ID ch),
                               pk_Receiver = ''T024BE7LD-U2147483697''\<rparr>),
      makeEventSender = (\<lambda>u. \<lparr>IsFromMe = (u = ''U2147483697''), SenderLogin = [],
                                Sender = MakeUserID ''T024BE7LD'' u\<rparr>),
      GetEmoji = (\<lambda>reaction. (reaction, False)),
      fetchChatInfo = (\<lambda>_. Inr (ChatInfo ''general'')),
      resp_GetChatInfo = (\<lambda>_. Inr (ChatInfo ''general'')),
      CustomEmojiReactions = False,
      ConversationCount = 50,
      map_range = rev\<rparr>"

definition demo_message :: MatrixMessage where
  "demo_message =
     \<lparr>msg_Portal = demo_portal, msg_Content = ''photo'', msg_ThreadRoot = None,
      msg_OrigSender = None\<rparr>"

definition demo_changed :: MessageEvent where
  "demo_changed =
     \<lparr>me_Channel = ''C061EG9SL'', me_User = ''U2147483697'',
      me_Timestamp = ''1355517536.000001'', me_SubType = ''message_changed'',
      me_SubMessage = Some ''1355517523.000005'', me_DeletedTimestamp = []\<rparr>"

definition legacy_session :: SlackClient where
  "legacy_session = demo_session\<lparr>Extra := [(''token'', ''xoxs-1'')]\<rparr>"

definition demo_stored :: DbMessage where
  "demo_stored =
     \<lparr>db_ID = ''T024BE7LD-C061EG9SL-1355517523.000005'',
      db_SenderID = ''T024BE7LD-U2147483697'', db_Timestamp = Some 1355517523\<rparr>"

definition demo_stored_bridge :: bridge where
  "demo_stored_bridge =
     demo_bridge\<lparr>resp_GetLastPartAtOrBeforeTime := (\<lambda>_ _. Inr (Some demo_stored))\<rparr>"

definition demo_receipt :: MatrixReadReceipt where
  "demo_receipt = \<lparr>rr_Portal = demo_portal, rr_ExactMessage = None, rr_ReadUpTo = None\<rparr>"

text \<open>A direct-message conversation whose latest message is an ordinary message (it
  has the empty subtype), an API whose conversation list holds only this conversation,
  and a bridge without known portals.\<close>

definition demo_open_dm :: Channel where
  "demo_open_dm =
     \<lparr>ch_ID = ''D0C0F7S8Y'', IsIM = True, Latest = Some [], LastRead = ''1355517520.000001''\<rparr>"

definition dm_api :: slack_api where
  "dm_api = demo_api\<lparr>resp_GetConversationsForUser := (\<lambda>_ _. Inr ([demo_open_dm], []))\<rparr>"

definition fresh_bridge :: bridge where
  "fresh_bridge = demo_bridge\<lparr>resp_GetAllForLogin := Inr []\<rparr>"

subsection \<open>Splitting\<close>

lemma split_on_nonempty: "split_on d s \<noteq> []"
  by (induction s) (auto split: list.splits)

lemma split_on_no_delim: "d \<notin> set s \<Longrightarrow> split_on d s = [s]"
  by (induction s) auto

lemma split_on_first: "d \<notin> set a \<Longrightarrow> split_on d (a @ d # rest) = a # split_on d rest"
  by (induction a) auto

lemma split_on_two:
  "d \<notin> set a \<Longrightarrow> d \<notin> set b \<Longrightarrow> split_on d (a @ [d] @ b) = [a, b]"
  by (simp add: split_on_first split_on_no_delim)

lemma split_on_three:
  "d \<notin> set a \<Longrightarrow> d \<notin> set b \<Longrightarrow> d \<notin> set c \<Longrightarrow>
   split_on d (a @ [d] @ b @ [d] @ c) = [a, b, c]"
  by (simp add: split_on_first split_on_no_delim)

subsection \<open>Round trips\<close>

text \<open>
  Claim C1. For all well-formed components, decoding an encoded identifier recovers the
  exact original tuple: \<open>ParsePortalID (MakePortalID team channel) = (team, channel)\<close>,
  and likewise for the user codec, for the message codec (team, channel, timestamp) and
  for the emoji identifier.
\<close>

theorem codec_round_trip:
  assumes "well_formed team" and "well_formed channel"
    and "well_formed user" and "well_formed timestamp"
  shows "ParsePortalID (MakePortalID team channel) = (team, channel)
       \<and> ParseUserID (MakeUserID team user) = (team, user)
       \<and> ParseMessageID (MakeMessageID team channel timestamp)
           = (team, channel, timestamp, True)
       \<and> emoji_string (EmojiID reaction) = reaction"
proof -
  from assms have t: "delimiter \<notin> set team" and c: "delimiter \<notin> set channel"
    and u: "delimiter \<notin> set user" and ts: "delimiter \<notin> set timestamp"
    by (simp_all add: well_formed_def)
  have "ParsePortalID (MakePortalID team channel) = (team, channel)"
    unfolding ParsePortalID_def MakePortalID_def
    by (simp only: split_on_two [OF t c] list.case)
  moreover have "ParseUserID (MakeUserID team user) = (team, user)"
    unfolding ParseUserID_def MakeUserID_def
    by (simp only: split_on_two [OF t u] list.case)
  moreover have "ParseMessageID (MakeMessageID team channel timestamp)
      = (team, channel, timestamp, True)"
    unfolding ParseMessageID_def MakeMessageID_def
    by (simp only: split_on_three [OF t c ts] list.case)
  ultimately show ?thesis by simp
qed

theorem codec_round_trip_witness:
  "ParsePortalID (MakePortalID ''T024BE7LD'' ''C061EG9SL'') = (''T024BE7LD'', ''C061EG9SL'')
   \<and> ParseUserID (MakeUserID ''T024BE7LD'' ''U2147483697'') = (''T024BE7LD'', ''U2147483697'')
   \<and> ParseMessageID (MakeMessageID ''T024BE7LD'' ''C061EG9SL'' ''1355517523.000005'')
       = (''T024BE7LD'', ''C061EG9SL'', ''1355517523.000005'', True)
   \<and> emoji_string (EmojiID ''thumbsup'') = ''thumbsup''"
proof -
  have "well_formed ''T024BE7LD''" and "well_formed ''C061EG9SL''"
    and "well_formed ''U2147483697''" and "well_formed ''1355517523.000005''"
    by (simp_all add: well_formed_def delimiter_def)
  then show ?thesis
    using codec_round_trip [of "''T024BE7LD''" "''C061EG9SL''" "''U2147483697''"
        "''1355517523.000005''" "''thumbsup''"]
    by simp
qed

section \<open>Properties of the outbound dispatcher\<close>

lemma client_call_logged_in:
  "Client s = Some c \<Longrightarrow> remote_calls (snd (client_call s call resp)) = [call]"
  by (simp add: client_call_def split: sum.splits)

lemma ParsePortalID_demo: "ParsePortalID ''T024BE7LD-C061EG9SL'' = (''T024BE7LD'', ''C061EG9SL'')"
  by (simp add: ParsePortalID_def delimiter_def)

text \<open>
  Claim C3. For every converted outbound payload, a logged-in dispatcher performs
  exactly one remote action, chosen in fixed priority order: the post request if
  present, otherwise the file upload, otherwise the share by reference. When none of
  the three is present it fails with the no-payload error and issues no remote call.
\<close>

theorem sendToSlack_priority:
  assumes "Client s = Some c"
  shows "remote_calls (snd (sendToSlack api s channelID conv msg)) =
           (case SendReq conv of
              Some req \<Rightarrow> [PostMessageContext channelID req]
            | None \<Rightarrow>
                (case FileUpload conv of
                   Some upload \<Rightarrow> [UploadFileV2Context upload]
                 | None \<Rightarrow>
                     (case FileShare conv of
                        Some share \<Rightarrow> [ShareFile share]
                      | None \<Rightarrow> [])))
       \<and> (SendReq conv = None \<and> FileUpload conv = None \<and> FileShare conv = None \<longrightarrow>
            sendToSlack api s channelID conv msg =
              (Inl (Error (ErrorNew ''no message or attachment to send'')), []))"
  using assms
  by (auto simp: sendToSlack_def client_call_def split: option.splits sum.splits)

theorem sendToSlack_priority_witness:
  "remote_calls (snd (sendToSlack demo_api demo_session ''C061EG9SL'' demo_conv None))
     = [PostMessageContext ''C061EG9SL'' (MsgOption ''hello'')]
   \<and> remote_calls (snd (sendToSlack demo_api demo_session ''C061EG9SL''
        (demo_conv\<lparr>SendReq := None\<rparr>) None))
     = [UploadFileV2Context (UploadFileV2Parameters ''photo.png'')]
   \<and> remote_calls (snd (sendToSlack demo_api demo_session ''C061EG9SL''
        (demo_conv\<lparr>SendReq := None, FileUpload := None\<rparr>) None))
     = [ShareFile (ShareFileParams ''F0S43PZDF'')]
   \<and> sendToSlack demo_api demo_session ''C061EG9SL''
        (demo_conv\<lparr>SendReq := None, FileUpload := None, FileShare := None\<rparr>) None
     = (Inl (Error (ErrorNew ''no message or attachment to send'')), [])"
proof -
  have c: "Client demo_session = Some (ClientHandle ''xoxc-1'' ''d-1'')"
    by (simp add: demo_session_def)
  show ?thesis
    using sendToSlack_priority [OF c, of demo_api "''C061EG9SL''" demo_conv None]
      sendToSlack_priority [OF c, of demo_api "''C061EG9SL''" "demo_conv\<lparr>SendReq := None\<rparr>" None]
      sendToSlack_priority [OF c, of demo_api "''C061EG9SL''"
        "demo_conv\<lparr>SendReq := None, FileUpload := None\<rparr>" None]
      sendToSlack_priority [OF c, of demo_api "''C061EG9SL''"
        "demo_conv\<lparr>SendReq := None, FileUpload := None, FileShare := None\<rparr>" None]
    by (simp add: demo_conv_def)
qed

text \<open>
  Claim C6. When the outbound payload is a file upload that succeeds, the dispatcher
  takes the timestamp from the first record of the upload's private shares for the
  target channel when that list is non-empty, otherwise from the first record of its
  public shares when that list is non-empty; when neither is populated it returns
  successfully with the empty timestamp, queues the message as pending, and
  \<^verbatim>\<open>HandleMatrixMessage\<close> answers with a pending response.
\<close>

theorem upload_timestamp_resolution:
  assumes "Client s = Some c"
    and "SendReq conv = None" and "FileUpload conv = Some upload"
    and "resp_UploadFileV2 api upload = Inr file"
    and "snd (ParsePortalID (pk_ID (msg_Portal m))) = channelID" and "channelID \<noteq> []"
    and "resp_ToSlack br (msg_Portal m) (msg_Content m) (msg_ThreadRoot m) None
           (msg_OrigSender m) (IsRealUser s) = Inr conv"
  shows "(case Private (Shares file) channelID of
            Some (info # rest) \<Rightarrow>
              fst (sendToSlack api s channelID conv (Some m)) = Inr (Ts info)
          | _ \<Rightarrow>
              (case Public (Shares file) channelID of
                 Some (info # rest) \<Rightarrow>
                   fst (sendToSlack api s channelID conv (Some m)) = Inr (Ts info)
               | _ \<Rightarrow>
                   sendToSlack api s channelID conv (Some m) =
                     (Inr [], [Slack (UploadFileV2Context upload),
                               Bridge (AddPendingToSave (UserID s @ '':'' @ file_ID file))])))
       \<and> (fst (sendToSlack api s channelID conv (Some m)) = Inr [] \<longrightarrow>
            fst (HandleMatrixMessage cn br api s m) = Inr \<lparr>DB = None, Pending = True\<rparr>
            \<and> Bridge (AddPendingToSave (UserID s @ '':'' @ file_ID file))
                \<in> set (snd (HandleMatrixMessage cn br api s m)))"
proof -
  have send: "sendToSlack api s channelID conv (Some m) =
      (if share_timestamp file channelID \<noteq> []
       then (Inr (share_timestamp file channelID), [Slack (UploadFileV2Context upload)])
       else (Inr [], [Slack (UploadFileV2Context upload),
                      Bridge (AddPendingToSave (UserID s @ '':'' @ file_ID file))]))"
    using assms(1-4) by (simp add: sendToSlack_def client_call_def)
  have first: ?thesis if "share_timestamp file channelID \<noteq> []"
    using that send
    by (auto simp: share_timestamp_def first_share_def split: option.splits list.splits)
  have pending: "HandleMatrixMessage cn br api s m =
      (Inr \<lparr>DB = None, Pending = True\<rparr>,
       [Bridge (ToSlack (msg_Portal m) (msg_Content m)), Slack (UploadFileV2Context upload),
        Bridge (AddPendingToSave (UserID s @ '':'' @ file_ID file))])"
    if "share_timestamp file channelID = []"
    using that assms(1,5,6,7) send by (simp add: HandleMatrixMessage_def Let_def)
  have second: ?thesis if "share_timestamp file channelID = []"
    using that send pending [OF that]
    by (auto simp: share_timestamp_def first_share_def split: option.splits list.splits)
  from first second show ?thesis by blast
qed

theorem upload_timestamp_resolution_witness:
  "sendToSlack demo_api demo_session ''C061EG9SL'' demo_upload_conv (Some demo_message) =
     (Inr [], [Slack (UploadFileV2Context (UploadFileV2Parameters ''photo.png'')),
               Bridge (AddPendingToSave ''U2147483697:F0S43PZDF'')])
   \<and> fst (HandleMatrixMessage demo_connector demo_bridge demo_api demo_session demo_message)
       = Inr \<lparr>DB = None, Pending = True\<rparr>
   \<and> Bridge (AddPendingToSave ''U2147483697:F0S43PZDF'')
       \<in> set (snd (HandleMatrixMessage demo_connector demo_bridge demo_api demo_session
                      demo_message))"
proof -
  have c: "Client demo_session = Some (ClientHandle ''xoxc-1'' ''d-1'')"
    by (simp add: demo_session_def)
  have p: "snd (ParsePortalID (pk_ID (msg_Portal demo_message))) = ''C061EG9SL''"
    by (simp add: demo_message_def demo_portal_def ParsePortalID_demo)
  have t: "resp_ToSlack demo_bridge (msg_Portal demo_message) (msg_Content demo_message)
      (msg_ThreadRoot demo_message) None (msg_OrigSender demo_message)
      (IsRealUser demo_session) = Inr demo_upload_conv"
    by (simp add: demo_bridge_def)
  have u: "resp_UploadFileV2 demo_api (UploadFileV2Parameters ''photo.png'') = Inr demo_file"
    by (simp add: demo_api_def)
  have "SendReq demo_upload_conv = None"
    and "FileUpload demo_upload_conv = Some (UploadFileV2Parameters ''photo.png'')"
    by (simp_all add: demo_upload_conv_def)
  from upload_timestamp_resolution [OF c this u p _ t, of demo_connector]
  show ?thesis
    by (simp add: demo_file_def demo_session_def)
qed

section \<open>Gating of outbound operations\<close>

lemma remote_calls_client_call_le:
  "length (remote_calls (snd (client_call s call resp))) \<le> Suc 0"
  by (simp add: client_call_def split: option.splits sum.splits)

lemma remote_calls_mark_read_le:
  "length (remote_calls (snd (mark_read api s ident))) \<le> Suc 0"
  by (cases "ParseMessageID ident") (simp add: mark_read_def remote_calls_client_call_le)

lemma mark_read_logged_in:
  "Client s = Some c \<Longrightarrow> ParseMessageID ident = (t, channelID, ts, True) \<Longrightarrow>
   remote_calls (snd (mark_read api s ident)) = [MarkConversationContext channelID ts]"
  by (simp add: mark_read_def client_call_logged_in)

lemma remote_calls_after_lookup:
  "remote_calls (snd (case p of (r, tr) \<Rightarrow> (r, Bridge b # tr))) = remote_calls (snd p)"
  by (cases p) simp

lemma read_receipt_at_most_one:
  "length (remote_calls (snd (HandleMatrixReadReceipt br api s rr))) \<le> 1"
  by (simp add: HandleMatrixReadReceipt_def Let_def remote_calls_mark_read_le
      remote_calls_after_lookup split: option.splits sum.splits)

lemma typing_at_most_one: "length (remote_calls (snd (HandleMatrixTyping s portal))) \<le> 1"
  by (simp add: HandleMatrixTyping_def Let_def split: option.splits)

text \<open>
  The seven handlers that check the client: logged out, each fails with
  \<^verbatim>\<open>ErrNotLoggedIn\<close> and an empty trace.
\<close>

lemma logged_out_fails_fast:
  assumes "Client s = None"
  shows "HandleMatrixMessage cn br api s msg = (Inl (Error ErrNotLoggedIn), [])"
    and "HandleMatrixEdit br api s edit = (Inl (Error ErrNotLoggedIn), [])"
    and "HandleMatrixMessageRemove api s target = (Inl (Error ErrNotLoggedIn), [])"
    and "HandleMatrixReaction api s target emoji = (Inl (Error ErrNotLoggedIn), [])"
    and "HandleMatrixReactionRemove api s target emoji = (Inl (Error ErrNotLoggedIn), [])"
    and "HandleMatrixReadReceipt br api s rr = (Inl (Error ErrNotLoggedIn), [])"
    and "HandleMatrixTyping s portal = (Inl (Error ErrNotLoggedIn), [])"
  using assms
  by (simp_all add: HandleMatrixMessage_def HandleMatrixEdit_def HandleMatrixMessageRemove_def
      HandleMatrixReaction_def HandleMatrixReactionRemove_def HandleMatrixReadReceipt_def
      HandleMatrixTyping_def)

text \<open>
  Claim C7 as stated fails for room name and topic changes: a session that is not a
  real user still issues the rename call. It also fails for "a single remote call is
  issued": a read receipt of a real user whose database lookup finds no message issues
  none.
\<close>

theorem room_name_gate_counterexample:
  "IsRealUser (demo_session\<lparr>IsRealUser := False\<rparr>) = False
   \<and> HandleMatrixRoomName demo_api (demo_session\<lparr>IsRealUser := False\<rparr>) demo_portal ''general''
       = (Inr True, [Slack (RenameConversationContext ''C061EG9SL'' ''general'')])
   \<and> HandleMatrixRoomTopic demo_api (demo_session\<lparr>IsRealUser := False\<rparr>) demo_portal ''news''
       = (Inr True, [Slack (SetTopicOfConversationContext ''C061EG9SL'' ''news'')])
   \<and> IsRealUser demo_session = True
   \<and> HandleMatrixReadReceipt demo_bridge demo_api demo_session
        \<lparr>rr_Portal = demo_portal, rr_ExactMessage = None, rr_ReadUpTo = None\<rparr>
       = (Inr (), [Bridge (GetLastPartAtOrBeforeTime demo_portal None)])"
  by (simp add: HandleMatrixRoomName_def HandleMatrixRoomTopic_def HandleMatrixReadReceipt_def
      client_call_def demo_session_def demo_portal_def demo_api_def demo_bridge_def
      ParsePortalID_demo)

lemma mark_read_undecodable:
  "ParseMessageID ident = (t, channelID, ts, False) \<Longrightarrow>
   mark_read api s ident = (Inl (Error (ErrorNew ''invalid message ID'')), [])"
  by (simp add: mark_read_def)

lemma ParseMessageID_demo:
  "ParseMessageID ''T024BE7LD-C061EG9SL-1355517523.000005''
     = (''T024BE7LD'', ''C061EG9SL'', ''1355517523.000005'', True)"
  by (simp add: ParseMessageID_def delimiter_def)

text \<open>
  Claim C7, amended. With an active client:
  \<^item> when the session is not a real user, the read-receipt and typing handlers return
    success without any remote call;
  \<^item> when it is a real user, the read-receipt handler issues exactly one mark call
    whenever it has a target message whose identifier decodes: the exact message of
    the receipt or, when the receipt names none, the last stored message at or before
    the read-up-to time. It issues no call when there is no stored message (success),
    when the lookup fails, or when the identifier does not decode (errors);
  \<^item> when it is a real user, the typing handler issues exactly one typing notice when
    the portal's channel id decodes and the stream handle exists, and none (success)
    when the channel id does not decode;
  \<^item> neither handler ever issues more than one remote call;
  \<^item> the room name and topic handlers are not gated on the real-user flag: with a
    channel id that decodes they issue exactly one rename or set-topic call, for real
    and other sessions alike, and with one that does not they fail without a call.
\<close>

theorem presence_signals_gated:
  assumes "Client s = Some c"
  shows "(\<not> IsRealUser s \<longrightarrow>
            HandleMatrixReadReceipt br api s rr = (Inr (), [])
            \<and> HandleMatrixTyping s portal = (Inr (), []))
       \<and> length (remote_calls (snd (HandleMatrixReadReceipt br api s rr))) \<le> 1
       \<and> length (remote_calls (snd (HandleMatrixTyping s portal))) \<le> 1
       \<and> (IsRealUser s \<longrightarrow>
            (\<forall>exact t channelID ts.
               rr_ExactMessage rr = Some exact \<and>
               ParseMessageID (db_ID exact) = (t, channelID, ts, True) \<longrightarrow>
               remote_calls (snd (HandleMatrixReadReceipt br api s rr))
                 = [MarkConversationContext channelID ts]))
       \<and> (IsRealUser s \<longrightarrow>
            (\<forall>lastMessage t channelID ts.
               rr_ExactMessage rr = None \<and>
               resp_GetLastPartAtOrBeforeTime br (rr_Portal rr) (rr_ReadUpTo rr)
                 = Inr (Some lastMessage) \<and>
               ParseMessageID (db_ID lastMessage) = (t, channelID, ts, True) \<longrightarrow>
               remote_calls (snd (HandleMatrixReadReceipt br api s rr))
                 = [MarkConversationContext channelID ts]))
       \<and> (IsRealUser s \<and> rr_ExactMessage rr = None \<and>
            resp_GetLastPartAtOrBeforeTime br (rr_Portal rr) (rr_ReadUpTo rr) = Inr None \<longrightarrow>
            HandleMatrixReadReceipt br api s rr
              = (Inr (), [Bridge (GetLastPartAtOrBeforeTime (rr_Portal rr) (rr_ReadUpTo rr))]))
       \<and> (IsRealUser s \<longrightarrow>
            (\<forall>e. rr_ExactMessage rr = None \<and>
               resp_GetLastPartAtOrBeforeTime br (rr_Portal rr) (rr_ReadUpTo rr) = Inl e \<longrightarrow>
               HandleMatrixReadReceipt br api s rr
                 = (Inl (Error (Remote e)),
                    [Bridge (GetLastPartAtOrBeforeTime (rr_Portal rr) (rr_ReadUpTo rr))])))
       \<and> (IsRealUser s \<longrightarrow>
            (\<forall>target t channelID ts.
               (rr_ExactMessage rr = Some target \<or>
                rr_ExactMessage rr = None \<and>
                resp_GetLastPartAtOrBeforeTime br (rr_Portal rr) (rr_ReadUpTo rr)
                  = Inr (Some target)) \<and>
               ParseMessageID (db_ID target) = (t, channelID, ts, False) \<longrightarrow>
               fst (HandleMatrixReadReceipt br api s rr)
                 = Inl (Error (ErrorNew ''invalid message ID''))
               \<and> remote_calls (snd (HandleMatrixReadReceipt br api s rr)) = []))
       \<and> (IsRealUser s \<and> RTM s \<noteq> None \<and> snd (ParsePortalID (pk_ID portal)) \<noteq> [] \<longrightarrow>
            remote_calls (snd (HandleMatrixTyping s portal))
              = [RTMSendTyping (snd (ParsePortalID (pk_ID portal)))])
       \<and> (IsRealUser s \<and> snd (ParsePortalID (pk_ID portal)) = [] \<longrightarrow>
            HandleMatrixTyping s portal = (Inr (), []))
       \<and> (snd (ParsePortalID (pk_ID portal)) \<noteq> [] \<longrightarrow>
            remote_calls (snd (HandleMatrixRoomName api s portal name))
              = [RenameConversationContext (snd (ParsePortalID (pk_ID portal))) name]
            \<and> remote_calls (snd (HandleMatrixRoomTopic api s portal topic))
              = [SetTopicOfConversationContext (snd (ParsePortalID (pk_ID portal))) topic])
       \<and> (snd (ParsePortalID (pk_ID portal)) = [] \<longrightarrow>
            HandleMatrixRoomName api s portal name
              = (Inl (Error (ErrorNew ''invalid channel ID'')), [])
            \<and> HandleMatrixRoomTopic api s portal topic
              = (Inl (Error (ErrorNew ''invalid channel ID'')), []))"
proof -
  have gate: "\<not> IsRealUser s \<longrightarrow>
      HandleMatrixReadReceipt br api s rr = (Inr (), [])
      \<and> HandleMatrixTyping s portal = (Inr (), [])"
    using assms by (simp add: HandleMatrixReadReceipt_def HandleMatrixTyping_def)
  have exact: "IsRealUser s \<longrightarrow>
      (\<forall>exact t channelID ts.
         rr_ExactMessage rr = Some exact \<and>
         ParseMessageID (db_ID exact) = (t, channelID, ts, True) \<longrightarrow>
         remote_calls (snd (HandleMatrixReadReceipt br api s rr))
           = [MarkConversationContext channelID ts])"
    using assms by (auto simp: HandleMatrixReadReceipt_def mark_read_logged_in)
  have stored: "IsRealUser s \<longrightarrow>
      (\<forall>lastMessage t channelID ts.
         rr_ExactMessage rr = None \<and>
         resp_GetLastPartAtOrBeforeTime br (rr_Portal rr) (rr_ReadUpTo rr)
           = Inr (Some lastMessage) \<and>
         ParseMessageID (db_ID lastMessage) = (t, channelID, ts, True) \<longrightarrow>
         remote_calls (snd (HandleMatrixReadReceipt br api s rr))
           = [MarkConversationContext channelID ts])"
    using assms
    by (auto simp: HandleMatrixReadReceipt_def Let_def remote_calls_after_lookup
        mark_read_logged_in)
  have no_stored: "IsRealUser s \<and> rr_ExactMessage rr = None \<and>
      resp_GetLastPartAtOrBeforeTime br (rr_Portal rr) (rr_ReadUpTo rr) = Inr None \<longrightarrow>
      HandleMatrixReadReceipt br api s rr
        = (Inr (), [Bridge (GetLastPartAtOrBeforeTime (rr_Portal rr) (rr_ReadUpTo rr))])"
    using assms by (auto simp: HandleMatrixReadReceipt_def Let_def)
  have failed: "IsRealUser s \<longrightarrow>
      (\<forall>e. rr_ExactMessage rr = None \<and>
         resp_GetLastPartAtOrBeforeTime br (rr_Portal rr) (rr_ReadUpTo rr) = Inl e \<longrightarrow>
         HandleMatrixReadReceipt br api s rr
           = (Inl (Error (Remote e)),
              [Bridge (GetLastPartAtOrBeforeTime (rr_Portal rr) (rr_ReadUpTo rr))]))"
    using assms by (auto simp: HandleMatrixReadReceipt_def Let_def)
  have undecodable: "IsRealUser s \<longrightarrow>
      (\<forall>target t channelID ts.
         (rr_ExactMessage rr = Some target \<or>
          rr_ExactMessage rr = None \<and>
          resp_GetLastPartAtOrBeforeTime br (rr_Portal rr) (rr_ReadUpTo rr)
            = Inr (Some target)) \<and>
         ParseMessageID (db_ID target) = (t, channelID, ts, False) \<longrightarrow>
         fst (HandleMatrixReadReceipt br api s rr)
           = Inl (Error (ErrorNew ''invalid message ID''))
         \<and> remote_calls (snd (HandleMatrixReadReceipt br api s rr)) = [])"
    using assms
    by (auto simp: HandleMatrixReadReceipt_def Let_def mark_read_undecodable)
  have typing: "IsRealUser s \<and> RTM s \<noteq> None \<and> snd (ParsePortalID (pk_ID portal)) \<noteq> [] \<longrightarrow>
      remote_calls (snd (HandleMatrixTyping s portal))
        = [RTMSendTyping (snd (ParsePortalID (pk_ID portal)))]"
    using assms by (auto simp: HandleMatrixTyping_def Let_def)
  have no_channel: "IsRealUser s \<and> snd (ParsePortalID (pk_ID portal)) = [] \<longrightarrow>
      HandleMatrixTyping s portal = (Inr (), [])"
    using assms by (simp add: HandleMatrixTyping_def Let_def)
  have name: "snd (ParsePortalID (pk_ID portal)) \<noteq> [] \<longrightarrow>
      remote_calls (snd (HandleMatrixRoomName api s portal name))
        = [RenameConversationContext (snd (ParsePortalID (pk_ID portal))) name]
      \<and> remote_calls (snd (HandleMatrixRoomTopic api s portal topic))
        = [SetTopicOfConversationContext (snd (ParsePortalID (pk_ID portal))) topic]"
    using assms
    by (simp add: HandleMatrixRoomName_def HandleMatrixRoomTopic_def Let_def client_call_def
        split: sum.splits)
  have bad_channel: "snd (ParsePortalID (pk_ID portal)) = [] \<longrightarrow>
      HandleMatrixRoomName api s portal name
        = (Inl (Error (ErrorNew ''invalid channel ID'')), [])
      \<and> HandleMatrixRoomTopic api s portal topic
        = (Inl (Error (ErrorNew ''invalid channel ID'')), [])"
    by (simp add: HandleMatrixRoomName_def HandleMatrixRoomTopic_def Let_def)
  show ?thesis
    by (intro conjI)
      (rule gate exact stored no_stored failed undecodable typing no_channel name
        bad_channel read_receipt_at_most_one typing_at_most_one)+
qed

theorem presence_signals_gated_witness:
  "HandleMatrixReadReceipt demo_stored_bridge demo_api (demo_session\<lparr>IsRealUser := False\<rparr>)
     demo_receipt = (Inr (), [])
   \<and> HandleMatrixTyping (demo_session\<lparr>IsRealUser := False\<rparr>) demo_portal = (Inr (), [])
   \<and> remote_calls (snd (HandleMatrixReadReceipt demo_stored_bridge demo_api demo_session
        demo_receipt))
       = [MarkConversationContext ''C061EG9SL'' ''1355517523.000005'']
   \<and> remote_calls (snd (HandleMatrixReadReceipt demo_bridge demo_api demo_session
        (demo_receipt\<lparr>rr_ExactMessage := Some demo_stored\<rparr>)))
       = [MarkConversationContext ''C061EG9SL'' ''1355517523.000005'']
   \<and> HandleMatrixReadReceipt demo_bridge demo_api demo_session demo_receipt
       = (Inr (), [Bridge (GetLastPartAtOrBeforeTime demo_portal None)])
   \<and> remote_calls (snd (HandleMatrixTyping demo_session demo_portal))
       = [RTMSendTyping ''C061EG9SL'']
   \<and> remote_calls (snd (HandleMatrixRoomName demo_api (demo_session\<lparr>IsRealUser := False\<rparr>)
        demo_portal ''general''))
       = [RenameConversationContext ''C061EG9SL'' ''general'']"
proof -
  have c: "Client (demo_session\<lparr>IsRealUser := False\<rparr>) = Some (ClientHandle ''xoxc-1'' ''d-1'')"
    and c': "Client demo_session = Some (ClientHandle ''xoxc-1'' ''d-1'')"
    by (simp_all add: demo_session_def)
  have p: "snd (ParsePortalID (pk_ID demo_portal)) = ''C061EG9SL''"
    by (simp add: demo_portal_def ParsePortalID_demo)
  have r: "IsRealUser demo_session" "RTM demo_session \<noteq> None"
    "\<not> IsRealUser (demo_session\<lparr>IsRealUser := False\<rparr>)"
    by (simp_all add: demo_session_def)
  have m: "ParseMessageID (db_ID demo_stored)
      = (''T024BE7LD'', ''C061EG9SL'', ''1355517523.000005'', True)"
    by (simp add: demo_stored_def ParseMessageID_demo)
  have q: "rr_ExactMessage demo_receipt = None"
    "rr_ExactMessage (demo_receipt\<lparr>rr_ExactMessage := Some demo_stored\<rparr>) = Some demo_stored"
    "resp_GetLastPartAtOrBeforeTime demo_stored_bridge (rr_Portal demo_receipt)
       (rr_ReadUpTo demo_receipt) = Inr (Some demo_stored)"
    "resp_GetLastPartAtOrBeforeTime demo_bridge (rr_Portal demo_receipt)
       (rr_ReadUpTo demo_receipt) = Inr None"
    "rr_Portal demo_receipt = demo_portal" "rr_ReadUpTo demo_receipt = None"
    by (simp_all add: demo_receipt_def demo_stored_bridge_def demo_bridge_def)
  note gated = presence_signals_gated [OF c, of demo_stored_bridge demo_api demo_receipt
      demo_portal "''general''"]
  note stored = presence_signals_gated [OF c', of demo_stored_bridge demo_api demo_receipt
      demo_portal]
  note exact = presence_signals_gated [OF c', of demo_bridge demo_api
      "demo_receipt\<lparr>rr_ExactMessage := Some demo_stored\<rparr>" demo_portal]
  note no_stored = presence_signals_gated [OF c', of demo_bridge demo_api demo_receipt demo_portal]
  from gated r have "HandleMatrixReadReceipt demo_stored_bridge demo_api
      (demo_session\<lparr>IsRealUser := False\<rparr>) demo_receipt = (Inr (), [])"
    and "HandleMatrixTyping (demo_session\<lparr>IsRealUser := False\<rparr>) demo_portal = (Inr (), [])"
    by blast+
  moreover from gated p
  have "remote_calls (snd (HandleMatrixRoomName demo_api (demo_session\<lparr>IsRealUser := False\<rparr>)
        demo_portal ''general''))
      = [RenameConversationContext ''C061EG9SL'' ''general'']"
    by simp
  moreover from stored r q m
  have "remote_calls (snd (HandleMatrixReadReceipt demo_stored_bridge demo_api demo_session
        demo_receipt))
      = [MarkConversationContext ''C061EG9SL'' ''1355517523.000005'']"
    by blast
  moreover from exact r q m
  have "remote_calls (snd (HandleMatrixReadReceipt demo_bridge demo_api demo_session
        (demo_receipt\<lparr>rr_ExactMessage := Some demo_stored\<rparr>)))
      = [MarkConversationContext ''C061EG9SL'' ''1355517523.000005'']"
    by blast
  moreover from no_stored r q
  have "HandleMatrixReadReceipt demo_bridge demo_api demo_session demo_receipt
      = (Inr (), [Bridge (GetLastPartAtOrBeforeTime demo_portal None)])"
    by simp
  moreover from stored r p
  have "remote_calls (snd (HandleMatrixTyping demo_session demo_portal))
      = [RTMSendTyping ''C061EG9SL'']"
    by simp
  ultimately show ?thesis by blast
qed

text \<open>
  Claim C8 asks every outbound operation to fail with the not-logged-in error when no
  client exists. \<^verbatim>\<open>HandleMatrixRoomName\<close> and \<^verbatim>\<open>HandleMatrixRoomTopic\<close> have no such
  check: logged out, with a portal whose channel id decodes, they call the rename and
  set-topic methods through the nil client, which panics.
\<close>

theorem room_name_logged_out:
  "Client (demo_session\<lparr>Client := None, RTM := None\<rparr>) = None
   \<and> HandleMatrixRoomName demo_api (demo_session\<lparr>Client := None, RTM := None\<rparr>)
        demo_portal ''general'' = (Inl nil_dereference, [])
   \<and> HandleMatrixRoomTopic demo_api (demo_session\<lparr>Client := None, RTM := None\<rparr>)
        demo_portal ''news'' = (Inl nil_dereference, [])
   \<and> nil_dereference \<noteq> Error ErrNotLoggedIn"
  by (simp add: HandleMatrixRoomName_def HandleMatrixRoomTopic_def client_call_def
      demo_session_def demo_portal_def ParsePortalID_demo nil_dereference_def)

section \<open>Properties of the event translator\<close>

lemma fill_meta_PortalKey [simp]:
  "meta_PortalKey (fill_meta cn s channelID senderID timestamp meta) = meta_PortalKey meta"
  by (simp add: fill_meta_def Let_def)

lemma Disconnect_handles:
  "Client (fst (Disconnect s)) = None" "RTM (fst (Disconnect s)) = None"
  "Extra (fst (Disconnect s)) = Extra s"
  "statuses (snd (Disconnect s)) = []" "queued (snd (Disconnect s)) = []"
  by (simp_all add: Disconnect_def split: option.splits)

lemma statuses_append [simp]: "statuses (xs @ ys) = statuses xs @ statuses ys"
  by (induction xs rule: statuses.induct) simp_all

lemma queued_append [simp]: "queued (xs @ ys) = queued xs @ queued ys"
  by (induction xs rule: queued.induct) simp_all

lemma invalidateSession_effect:
  "map_of (Extra (fst (invalidateSession s state))) ''token'' = Some []"
  "map_of (Extra (fst (invalidateSession s state))) ''cookie_token'' = Some []"
  "Client (fst (invalidateSession s state)) = None"
  "RTM (fst (invalidateSession s state)) = None"
  "statuses (snd (invalidateSession s state)) = [state]"
  "queued (snd (invalidateSession s state)) = []"
proof -
  define extra where "extra = AList.update ''cookie_token'' [] (AList.update ''token'' [] (Extra s))"
  define s1 where "s1 = s\<lparr>Extra := extra\<rparr>"
  have inv: "invalidateSession s state =
      (fst (Disconnect s1),
       [Bridge (UserLoginSave extra)] @ snd (Disconnect s1) @ [Bridge (BridgeStateSend state)])"
    by (simp add: invalidateSession_def Let_def extra_def s1_def split: prod.splits)
  have ex: "Extra (fst (Disconnect s1)) = extra"
    by (simp add: Disconnect_handles s1_def)
  have "map_of extra ''token'' = Some []" and "map_of extra ''cookie_token'' = Some []"
    by (simp_all add: extra_def update_conv')
  then show "map_of (Extra (fst (invalidateSession s state))) ''token'' = Some []"
    and "map_of (Extra (fst (invalidateSession s state))) ''cookie_token'' = Some []"
    by (simp_all add: inv ex)
  show "Client (fst (invalidateSession s state)) = None"
    and "RTM (fst (invalidateSession s state)) = None"
    by (simp_all add: inv Disconnect_handles)
  show "statuses (snd (invalidateSession s state)) = [state]"
    and "queued (snd (invalidateSession s state)) = []"
    by (simp_all add: inv Disconnect_handles)
qed

lemma invalidateSession_Extra:
  "Extra (fst (invalidateSession s state))
     = AList.update ''cookie_token'' [] (AList.update ''token'' [] (Extra s))"
  by (simp add: invalidateSession_def Disconnect_def Let_def split: option.splits)

lemma invalidateSession_trace:
  "snd (invalidateSession s state) =
     Bridge (UserLoginSave (Extra (fst (invalidateSession s state))))
       # (case RTM s of None \<Rightarrow> [] | Some h \<Rightarrow> [Slack RTMDisconnect])
       @ [Bridge (BridgeStateSend state)]"
  by (simp add: invalidateSession_def Disconnect_def Let_def split: option.splits)

text \<open>
  Claim C2. When the stream delivers an invalid-auth signal, or a connected
  acknowledgement whose team id or user id differs from the session's own, the session
  is invalidated: the stored \<open>token\<close> and \<open>cookie_token\<close> are cleared (the other
  stored extras are kept) and the login is saved with the cleared secrets, the stream is disconnected when a stream handle
  exists, the client and stream handles are dropped, exactly one status is emitted
  (bad credentials with code \<open>slack-invalid-auth\<close>, respectively the identity-mismatch
  code \<open>slack-id-mismatch\<close>), and no normalized event is queued. The trace of the
  handler is exactly: save, disconnect (if a stream handle exists), status.
\<close>

theorem bad_identity_invalidates_session:
  "(map_of (Extra (fst (HandleSlackEvent cn br s InvalidAuthEvent))) ''token'' = Some []
    \<and> map_of (Extra (fst (HandleSlackEvent cn br s InvalidAuthEvent))) ''cookie_token'' = Some []
    \<and> Extra (fst (HandleSlackEvent cn br s InvalidAuthEvent))
        = AList.update ''cookie_token'' [] (AList.update ''token'' [] (Extra s))
    \<and> Client (fst (HandleSlackEvent cn br s InvalidAuthEvent)) = None
    \<and> RTM (fst (HandleSlackEvent cn br s InvalidAuthEvent)) = None
    \<and> statuses (snd (HandleSlackEvent cn br s InvalidAuthEvent))
        = [\<lparr>bs_StateEvent = StateBadCredentials, bs_Error = ''slack-invalid-auth'',
            bs_Message = []\<rparr>]
    \<and> queued (snd (HandleSlackEvent cn br s InvalidAuthEvent)) = []
    \<and> snd (HandleSlackEvent cn br s InvalidAuthEvent)
        = Bridge (UserLoginSave (Extra (fst (HandleSlackEvent cn br s InvalidAuthEvent))))
            # (case RTM s of None \<Rightarrow> [] | Some h \<Rightarrow> [Slack RTMDisconnect])
            @ [Bridge (BridgeStateSend
                 \<lparr>bs_StateEvent = StateBadCredentials, bs_Error = ''slack-invalid-auth'',
                  bs_Message = []\<rparr>)])
   \<and> (teamID \<noteq> TeamID s \<or> userID \<noteq> UserID s \<longrightarrow>
        map_of (Extra (fst (HandleSlackEvent cn br s (ConnectedEvent teamID userID)))) ''token''
          = Some []
        \<and> map_of (Extra (fst (HandleSlackEvent cn br s (ConnectedEvent teamID userID))))
            ''cookie_token'' = Some []
        \<and> Extra (fst (HandleSlackEvent cn br s (ConnectedEvent teamID userID)))
            = AList.update ''cookie_token'' [] (AList.update ''token'' [] (Extra s))
        \<and> Client (fst (HandleSlackEvent cn br s (ConnectedEvent teamID userID))) = None
        \<and> RTM (fst (HandleSlackEvent cn br s (ConnectedEvent teamID userID))) = None
        \<and> statuses (snd (HandleSlackEvent cn br s (ConnectedEvent teamID userID)))
            = [\<lparr>bs_StateEvent = StateUnknownError, bs_Error = ''slack-id-mismatch'',
                bs_Message = []\<rparr>]
        \<and> queued (snd (HandleSlackEvent cn br s (ConnectedEvent teamID userID))) = []
        \<and> snd (HandleSlackEvent cn br s (ConnectedEvent teamID userID))
            = Bridge (UserLoginSave
                (Extra (fst (HandleSlackEvent cn br s (ConnectedEvent teamID userID)))))
                # (case RTM s of None \<Rightarrow> [] | Some h \<Rightarrow> [Slack RTMDisconnect])
                @ [Bridge (BridgeStateSend
                     \<lparr>bs_StateEvent = StateUnknownError, bs_Error = ''slack-id-mismatch'',
                      bs_Message = []\<rparr>)])"
proof -
  have auth: "HandleSlackEvent cn br s InvalidAuthEvent =
      invalidateSession s \<lparr>bs_StateEvent = StateBadCredentials,
        bs_Error = ''slack-invalid-auth'', bs_Message = []\<rparr>"
    by simp
  have mismatch: "HandleSlackEvent cn br s (ConnectedEvent teamID userID) =
      invalidateSession s \<lparr>bs_StateEvent = StateUnknownError,
        bs_Error = ''slack-id-mismatch'', bs_Message = []\<rparr>"
    if "teamID \<noteq> TeamID s \<or> userID \<noteq> UserID s"
    using that by auto
  show ?thesis
  proof (rule conjI)
    show "map_of (Extra (fst (HandleSlackEvent cn br s InvalidAuthEvent))) ''token'' = Some []
      \<and> map_of (Extra (fst (HandleSlackEvent cn br s InvalidAuthEvent))) ''cookie_token''
          = Some []
      \<and> Extra (fst (HandleSlackEvent cn br s InvalidAuthEvent))
          = AList.update ''cookie_token'' [] (AList.update ''token'' [] (Extra s))
      \<and> Client (fst (HandleSlackEvent cn br s InvalidAuthEvent)) = None
      \<and> RTM (fst (HandleSlackEvent cn br s InvalidAuthEvent)) = None
      \<and> statuses (snd (HandleSlackEvent cn br s InvalidAuthEvent))
          = [\<lparr>bs_StateEvent = StateBadCredentials, bs_Error = ''slack-invalid-auth'',
              bs_Message = []\<rparr>]
      \<and> queued (snd (HandleSlackEvent cn br s InvalidAuthEvent)) = []
      \<and> snd (HandleSlackEvent cn br s InvalidAuthEvent)
          = Bridge (UserLoginSave (Extra (fst (HandleSlackEvent cn br s InvalidAuthEvent))))
              # (case RTM s of None \<Rightarrow> [] | Some h \<Rightarrow> [Slack RTMDisconnect])
              @ [Bridge (BridgeStateSend
                   \<lparr>bs_StateEvent = StateBadCredentials, bs_Error = ''slack-invalid-auth'',
                    bs_Message = []\<rparr>)]"
      unfolding auth
      by (intro conjI)
        (rule invalidateSession_effect invalidateSession_Extra invalidateSession_trace)+
  next
    show "teamID \<noteq> TeamID s \<or> userID \<noteq> UserID s \<longrightarrow>
        map_of (Extra (fst (HandleSlackEvent cn br s (ConnectedEvent teamID userID)))) ''token''
          = Some []
        \<and> map_of (Extra (fst (HandleSlackEvent cn br s (ConnectedEvent teamID userID))))
            ''cookie_token'' = Some []
        \<and> Extra (fst (HandleSlackEvent cn br s (ConnectedEvent teamID userID)))
            = AList.update ''cookie_token'' [] (AList.update ''token'' [] (Extra s))
        \<and> Client (fst (HandleSlackEvent cn br s (ConnectedEvent teamID userID))) = None
        \<and> RTM (fst (HandleSlackEvent cn br s (ConnectedEvent teamID userID))) = None
        \<and> statuses (snd (HandleSlackEvent cn br s (ConnectedEvent teamID userID)))
            = [\<lparr>bs_StateEvent = StateUnknownError, bs_Error = ''slack-id-mismatch'',
                bs_Message = []\<rparr>]
        \<and> queued (snd (HandleSlackEvent cn br s (ConnectedEvent teamID userID))) = []
        \<and> snd (HandleSlackEvent cn br s (ConnectedEvent teamID userID))
            = Bridge (UserLoginSave
                (Extra (fst (HandleSlackEvent cn br s (ConnectedEvent teamID userID)))))
                # (case RTM s of None \<Rightarrow> [] | Some h \<Rightarrow> [Slack RTMDisconnect])
                @ [Bridge (BridgeStateSend
                     \<lparr>bs_StateEvent = StateUnknownError, bs_Error = ''slack-id-mismatch'',
                      bs_Message = []\<rparr>)]"
    proof
      assume "teamID \<noteq> TeamID s \<or> userID \<noteq> UserID s"
      note eq = mismatch [OF this]
      show "map_of (Extra (fst (HandleSlackEvent cn br s (ConnectedEvent teamID userID))))
            ''token'' = Some []
        \<and> map_of (Extra (fst (HandleSlackEvent cn br s (ConnectedEvent teamID userID))))
            ''cookie_token'' = Some []
        \<and> Extra (fst (HandleSlackEvent cn br s (ConnectedEvent teamID userID)))
            = AList.update ''cookie_token'' [] (AList.update ''token'' [] (Extra s))
        \<and> Client (fst (HandleSlackEvent cn br s (ConnectedEvent teamID userID))) = None
        \<and> RTM (fst (HandleSlackEvent cn br s (ConnectedEvent teamID userID))) = None
        \<and> statuses (snd (HandleSlackEvent cn br s (ConnectedEvent teamID userID)))
            = [\<lparr>bs_StateEvent = StateUnknownError, bs_Error = ''slack-id-mismatch'',
                bs_Message = []\<rparr>]
        \<and> queued (snd (HandleSlackEvent cn br s (ConnectedEvent teamID userID))) = []
        \<and> snd (HandleSlackEvent cn br s (ConnectedEvent teamID userID))
            = Bridge (UserLoginSave
                (Extra (fst (HandleSlackEvent cn br s (ConnectedEvent teamID userID)))))
                # (case RTM s of None \<Rightarrow> [] | Some h \<Rightarrow> [Slack RTMDisconnect])
                @ [Bridge (BridgeStateSend
                     \<lparr>bs_StateEvent = StateUnknownError, bs_Error = ''slack-id-mismatch'',
                      bs_Message = []\<rparr>)]"
        unfolding eq
        by (intro conjI)
          (rule invalidateSession_effect invalidateSession_Extra invalidateSession_trace)+
    qed
  qed
qed

theorem bad_identity_invalidates_session_witness:
  "map_of (Extra (fst (HandleSlackEvent demo_connector demo_bridge demo_session
      (ConnectedEvent ''T0OTHER00'' ''U2147483697'')))) ''token'' = Some []
   \<and> map_of (Extra (fst (HandleSlackEvent demo_connector demo_bridge demo_session
      (ConnectedEvent ''T0OTHER00'' ''U2147483697'')))) ''cookie_token'' = Some []
   \<and> Client (fst (HandleSlackEvent demo_connector demo_bridge demo_session
      (ConnectedEvent ''T0OTHER00'' ''U2147483697''))) = None
   \<and> RTM (fst (HandleSlackEvent demo_connector demo_bridge demo_session
      (ConnectedEvent ''T0OTHER00'' ''U2147483697''))) = None
   \<and> statuses (snd (HandleSlackEvent demo_connector demo_bridge demo_session
      (ConnectedEvent ''T0OTHER00'' ''U2147483697'')))
       = [\<lparr>bs_StateEvent = StateUnknownError, bs_Error = ''slack-id-mismatch'',
           bs_Message = []\<rparr>]
   \<and> queued (snd (HandleSlackEvent demo_connector demo_bridge demo_session
      (ConnectedEvent ''T0OTHER00'' ''U2147483697''))) = []
   \<and> snd (HandleSlackEvent demo_connector demo_bridge demo_session
      (ConnectedEvent ''T0OTHER00'' ''U2147483697''))
       = [Bridge (UserLoginSave [(''token'', []), (''cookie_token'', [])]),
          Slack RTMDisconnect,
          Bridge (BridgeStateSend
            \<lparr>bs_StateEvent = StateUnknownError, bs_Error = ''slack-id-mismatch'',
             bs_Message = []\<rparr>)]"
proof -
  have "''T0OTHER00'' \<noteq> TeamID demo_session \<or> ''U2147483697'' \<noteq> UserID demo_session"
    by (simp add: demo_session_def)
  moreover have "RTM demo_session = Some RTMHandle"
    and "AList.update ''cookie_token'' [] (AList.update ''token'' [] (Extra demo_session))
      = [(''token'', []), (''cookie_token'', [])]"
    by (simp_all add: demo_session_def)
  ultimately show ?thesis
    using bad_identity_invalidates_session
      [of demo_connector demo_bridge demo_session "''T0OTHER00''" "''U2147483697''"]
    by simp
qed

text \<open>
  Claim C5. Without an inline channel descriptor, event-meta construction fails with
  the unknown-channel error exactly when the receiver lookup for (this account,
  channel id) answers with the empty key; when it succeeds, the room key is the
  non-empty key that the lookup returned, never one made up from the channel id. With
  a descriptor the room key is derived from the descriptor and no lookup is issued.
\<close>

theorem makeEventMeta_room_resolution:
  "(snd (fst (makeEventMeta cn br s channelID None senderID timestamp))
      = Some (ErrorNew (''unknown channel '' @ channelID))
    \<longleftrightarrow> (\<exists>key. resp_FindPortalReceiver br (MakePortalID (TeamID s) channelID) (LoginID s)
                 = Inr key \<and> IsEmpty key))
   \<and> (snd (fst (makeEventMeta cn br s channelID None senderID timestamp)) = None \<longrightarrow>
        resp_FindPortalReceiver br (MakePortalID (TeamID s) channelID) (LoginID s)
          = Inr (meta_PortalKey (fst (fst (makeEventMeta cn br s channelID None senderID timestamp))))
        \<and> \<not> IsEmpty (meta_PortalKey
                       (fst (fst (makeEventMeta cn br s channelID None senderID timestamp)))))
   \<and> snd (fst (makeEventMeta cn br s channelID (Some channel) senderID timestamp)) = None
   \<and> meta_PortalKey (fst (fst (makeEventMeta cn br s channelID (Some channel) senderID timestamp)))
       = makePortalKey cn channel
   \<and> snd (makeEventMeta cn br s channelID (Some channel) senderID timestamp) = []"
  by (auto simp: makeEventMeta_def Let_def split: sum.splits)

theorem makeEventMeta_room_resolution_witness:
  "snd (fst (makeEventMeta demo_connector demo_bridge demo_session ''C0UNKNOWN'' None
        ''U2147483697'' ''1355517523.000005''))
     = Some (ErrorNew ''unknown channel C0UNKNOWN'')
   \<and> meta_PortalKey (fst (fst (makeEventMeta demo_connector demo_bridge demo_session
        ''C061EG9SL'' None ''U2147483697'' ''1355517523.000005''))) = demo_portal
   \<and> snd (makeEventMeta demo_connector demo_bridge demo_session ''C061EG9SL''
        (Some (demo_general)) ''U2147483697'' []) = []"
proof -
  have empty: "resp_FindPortalReceiver demo_bridge
      (MakePortalID (TeamID demo_session) ''C0UNKNOWN'') (LoginID demo_session)
        = Inr zero_PortalKey \<and> IsEmpty zero_PortalKey"
    by (simp add: demo_bridge_def demo_session_def MakePortalID_def delimiter_def
        IsEmpty_def zero_PortalKey_def)
  have known: "resp_FindPortalReceiver demo_bridge
      (MakePortalID (TeamID demo_session) ''C061EG9SL'') (LoginID demo_session) = Inr demo_portal"
    by (simp add: demo_bridge_def demo_session_def MakePortalID_def delimiter_def)
  have ok: "snd (fst (makeEventMeta demo_connector demo_bridge demo_session
        ''C061EG9SL'' None ''U2147483697'' ''1355517523.000005'')) = None"
    by (simp add: makeEventMeta_def known IsEmpty_def demo_portal_def)
  from makeEventMeta_room_resolution
    [where cn = demo_connector and br = demo_bridge and s = demo_session
       and channelID = "''C0UNKNOWN''" and senderID = "''U2147483697''"
       and timestamp = "''1355517523.000005''" and channel = "demo_general"]
    makeEventMeta_room_resolution
    [where cn = demo_connector and br = demo_bridge and s = demo_session
       and channelID = "''C061EG9SL''" and senderID = "''U2147483697''"
       and timestamp = "''1355517523.000005''" and channel = "demo_general"]
    makeEventMeta_room_resolution
    [where cn = demo_connector and br = demo_bridge and s = demo_session
       and channelID = "''C061EG9SL''" and senderID = "''U2147483697''"
       and timestamp = "[]" and channel = "demo_general"]
    empty known ok
  show ?thesis by auto
qed

text \<open>
  Claim C9. A message event of subtype \<open>message_changed\<close> is wrapped as a message
  event whose type is the edit variant, and the construction of its edit payload is
  an unimplemented stub: \<^verbatim>\<open>ConvertEdit\<close> produces no payload for any portal and any
  list of existing parts, it panics with "implement me".
\<close>

theorem message_changed_stub_edit:
  assumes "me_SubType evt = MsgSubTypeMessageChanged"
  shows "fst (fst (wrapEvent cn br s (MessageEv evt)))
           = Some (SlackMessage
               ((fst (fst (makeEventMeta cn br s (me_Channel evt) None (me_User evt)
                        (me_Timestamp evt))))
                  \<lparr>meta_Type := RemoteEventMessage, meta_CreatePortal := True\<rparr>) evt)
       \<and> GetType (SlackMessage meta evt) = RemoteEventEdit
       \<and> ConvertEdit meta evt portal existing = Inl (Panic ''implement me'')"
  using assms
  by (simp add: with_meta_def SlackMessage_GetType_def ConvertEdit_def split: prod.splits)

theorem message_changed_stub_edit_witness:
  "(\<exists>meta. fst (fst (wrapEvent demo_connector demo_bridge demo_session (MessageEv demo_changed)))
      = Some (SlackMessage meta demo_changed)
      \<and> GetType (SlackMessage meta demo_changed) = RemoteEventEdit
      \<and> ConvertEdit meta demo_changed \<lparr>portal_Key = demo_portal, MXID = []\<rparr> []
          = Inl (Panic ''implement me''))"
proof -
  have "me_SubType demo_changed = MsgSubTypeMessageChanged"
    by (simp add: demo_changed_def MsgSubTypeMessageChanged_def)
  from message_changed_stub_edit [OF this, of demo_connector demo_bridge demo_session]
  show ?thesis by blast
qed

section \<open>Properties of channel reconciliation\<close>

subsection \<open>The fetch phase\<close>

text \<open>A channel is from the API when some page of the conversation list holds it.\<close>

lemma set_update_subset: "set (AList.update k v al) \<subseteq> insert (k, v) (set al)"
  by (induction al) auto

lemma store_chunk_entries:
  assumes "(k, ch) \<in> set (store_chunk chunk serverInfo)"
  shows "(k, ch) \<in> set serverInfo \<or> (ch \<in> set chunk \<and> k = ch_ID ch \<and> \<not> skipped_DM ch)"
  using assms
proof (induction chunk arbitrary: serverInfo)
  case Nil
  then show ?case by simp
next
  case (Cons c chunk)
  show ?case
  proof (cases "skipped_DM c")
    case True
    with Cons show ?thesis by auto
  next
    case False
    with Cons.prems
    have "(k, ch) \<in> set (store_chunk chunk (AList.update (ch_ID c) c serverInfo))"
      by simp
    from Cons.IH [OF this] False set_update_subset [of "ch_ID c" c serverInfo]
    show ?thesis by auto
  qed
qed

lemma store_chunk_distinct:
  "distinct (map fst serverInfo) \<Longrightarrow> distinct (map fst (store_chunk chunk serverInfo))"
  by (induction chunk arbitrary: serverInfo) (simp_all add: distinct_update)

lemma fetch_conversations_entries:
  assumes "fetch_conversations api s totalLimit cursor serverInfo = (Inr serverInfo', tr)"
    and "(k, ch) \<in> set serverInfo'"
  shows "(k, ch) \<in> set serverInfo
       \<or> (k = ch_ID ch \<and> \<not> skipped_DM ch
          \<and> (\<exists>limit cur chunk next.
                resp_GetConversationsForUser api limit cur = Inr (chunk, next) \<and> ch \<in> set chunk))"
  using assms
proof (induction api s totalLimit cursor serverInfo arbitrary: tr
    rule: fetch_conversations.induct)
  case (1 api s totalLimit cursor serverInfo)
  show ?case
  proof (cases "totalLimit \<le> 0")
    case True
    with "1.prems" show ?thesis by simp
  next
    case False
    define reqLimit where "reqLimit = (if totalLimit > 200 then 100 else totalLimit)"
    obtain r tr0 where call: "client_call s (GetConversationsForUserContext reqLimit cursor)
        (resp_GetConversationsForUser api reqLimit cursor) = (r, tr0)"
      by (cases "client_call s (GetConversationsForUserContext reqLimit cursor)
        (resp_GetConversationsForUser api reqLimit cursor)")
    show ?thesis
    proof (cases r)
      case (Inl f)
      with "1.prems"(1) False call show ?thesis
        by (simp add: reqLimit_def Let_def)
    next
      case (Inr page)
      obtain chunk nextCursor where page: "page = (chunk, nextCursor)"
        by (cases page)
      have resp: "resp_GetConversationsForUser api reqLimit cursor = Inr (chunk, nextCursor)"
        using call Inr page
        by (auto simp: client_call_def split: option.splits sum.splits)
      have stored: "(k', c') \<in> set (store_chunk chunk serverInfo) \<Longrightarrow>
          (k', c') \<in> set serverInfo
          \<or> (k' = ch_ID c' \<and> \<not> skipped_DM c'
             \<and> (\<exists>limit cur chunk next.
                   resp_GetConversationsForUser api limit cur = Inr (chunk, next)
                   \<and> c' \<in> set chunk))" for k' c'
        using store_chunk_entries [of k' c' chunk serverInfo] resp by blast
      show ?thesis
      proof (cases "nextCursor = [] \<or> chunk = []")
        case True
        with "1.prems"(1) False call Inr page
        have "serverInfo' = store_chunk chunk serverInfo"
          by (simp add: reqLimit_def Let_def)
        with "1.prems"(2) stored show ?thesis by blast
      next
        case more: False
        obtain r' tr' where rec: "fetch_conversations api s (totalLimit - int (length chunk))
            nextCursor (store_chunk chunk serverInfo) = (r', tr')"
          by (cases "fetch_conversations api s (totalLimit - int (length chunk))
            nextCursor (store_chunk chunk serverInfo)")
        with "1.prems"(1) False call Inr page more have r': "r' = Inr serverInfo'"
          by (simp add: reqLimit_def Let_def)
        have "(k, ch) \<in> set (store_chunk chunk serverInfo)
            \<or> (k = ch_ID ch \<and> \<not> skipped_DM ch
               \<and> (\<exists>limit cur chunk next.
                     resp_GetConversationsForUser api limit cur = Inr (chunk, next)
                     \<and> ch \<in> set chunk))"
          using "1.IH" [OF False reqLimit_def call [symmetric] Inr page [symmetric] more
              rec [unfolded r'] "1.prems"(2)] .
        with stored show ?thesis by blast
      qed
    qed
  qed
qed


lemma fetch_conversations_invariant:
  assumes "fetch_conversations api s totalLimit cursor serverInfo = (Inr serverInfo', tr)"
    and "P serverInfo"
    and step: "\<And>chunk si. P si \<Longrightarrow> P (store_chunk chunk si)"
  shows "P serverInfo'"
  using assms(1,2)
proof (induction api s totalLimit cursor serverInfo arbitrary: tr
    rule: fetch_conversations.induct)
  case (1 api s totalLimit cursor serverInfo)
  show ?case
  proof (cases "totalLimit \<le> 0")
    case True
    with "1.prems" show ?thesis by simp
  next
    case False
    define reqLimit where "reqLimit = (if totalLimit > 200 then 100 else totalLimit)"
    obtain r tr0 where call: "client_call s (GetConversationsForUserContext reqLimit cursor)
        (resp_GetConversationsForUser api reqLimit cursor) = (r, tr0)"
      by (cases "client_call s (GetConversationsForUserContext reqLimit cursor)
        (resp_GetConversationsForUser api reqLimit cursor)")
    show ?thesis
    proof (cases r)
      case (Inl f)
      with "1.prems"(1) False call show ?thesis
        by (simp add: reqLimit_def Let_def)
    next
      case (Inr page)
      obtain chunk nextCursor where page: "page = (chunk, nextCursor)"
        by (cases page)
      show ?thesis
      proof (cases "nextCursor = [] \<or> chunk = []")
        case True
        with "1.prems"(1) False call Inr page
        have "serverInfo' = store_chunk chunk serverInfo"
          by (simp add: reqLimit_def Let_def)
        with step [OF "1.prems"(2)] show ?thesis by simp
      next
        case more: False
        obtain r' tr' where rec: "fetch_conversations api s (totalLimit - int (length chunk))
            nextCursor (store_chunk chunk serverInfo) = (r', tr')"
          by (cases "fetch_conversations api s (totalLimit - int (length chunk))
            nextCursor (store_chunk chunk serverInfo)")
        with "1.prems"(1) False call Inr page more have r': "r' = Inr serverInfo'"
          by (simp add: reqLimit_def Let_def)
        show ?thesis
          using "1.IH" [OF False reqLimit_def call [symmetric] Inr page [symmetric] more
              rec [unfolded r'] step [OF "1.prems"(2)]] .
      qed
    qed
  qed
qed

lemma fetch_conversations_distinct:
  "fetch_conversations api s totalLimit cursor [] = (Inr serverInfo, tr) \<Longrightarrow>
   distinct (map fst serverInfo)"
  using fetch_conversations_invariant [where P = "\<lambda>si. distinct (map fst si)"
      and serverInfo = "[]", of api s totalLimit cursor serverInfo tr]
  by (simp add: store_chunk_distinct)

subsection \<open>Traces\<close>

lemma remote_calls_append [simp]: "remote_calls (xs @ ys) = remote_calls xs @ remote_calls ys"
  by (induction xs rule: remote_calls.induct) simp_all

lemma visited_append [simp]: "visited (xs @ ys) = visited xs @ visited ys"
  by (induction xs rule: visited.induct) simp_all

lemma created_append [simp]: "created (xs @ ys) = created xs @ created ys"
  by (induction xs rule: created.induct) simp_all

lemma refreshed_append [simp]: "refreshed (xs @ ys) = refreshed xs @ refreshed ys"
  by (induction xs rule: refreshed.induct) simp_all

lemma updated_append [simp]: "updated (xs @ ys) = updated xs @ updated ys"
  by (induction xs rule: updated.induct) simp_all

lemma slack_only_trace:
  assumes "\<forall>e \<in> set tr. \<exists>c. e = Slack c"
  shows "visited tr = []" and "created tr = []" and "refreshed tr = []" and "updated tr = []"
  using assms by (induction tr) auto

lemma client_call_slack_only: "\<forall>e \<in> set (snd (client_call s c resp)). \<exists>c'. e = Slack c'"
  by (simp add: client_call_def split: option.splits sum.splits)

lemma fetch_conversations_slack_only:
  "\<forall>e \<in> set (snd (fetch_conversations api s totalLimit cursor serverInfo)). \<exists>c. e = Slack c"
proof (induction api s totalLimit cursor serverInfo rule: fetch_conversations.induct)
  case (1 api s totalLimit cursor serverInfo)
  show ?case
  proof (cases "totalLimit \<le> 0")
    case True
    then show ?thesis by simp
  next
    case False
    define reqLimit where "reqLimit = (if totalLimit > 200 then 100 else totalLimit)"
    obtain r tr0 where call: "client_call s (GetConversationsForUserContext reqLimit cursor)
        (resp_GetConversationsForUser api reqLimit cursor) = (r, tr0)"
      by (cases "client_call s (GetConversationsForUserContext reqLimit cursor)
        (resp_GetConversationsForUser api reqLimit cursor)")
    have tr0: "\<forall>e \<in> set tr0. \<exists>c. e = Slack c"
      using client_call_slack_only [of s "GetConversationsForUserContext reqLimit cursor"
          "resp_GetConversationsForUser api reqLimit cursor"] call by simp
    show ?thesis
    proof (cases r)
      case (Inl f)
      with False call tr0 show ?thesis
        by (simp add: reqLimit_def Let_def)
    next
      case (Inr page)
      obtain chunk nextCursor where page: "page = (chunk, nextCursor)"
        by (cases page)
      show ?thesis
      proof (cases "nextCursor = [] \<or> chunk = []")
        case True
        with False call Inr page tr0 show ?thesis
          by (simp add: reqLimit_def Let_def)
      next
        case more: False
        obtain r' tr' where rec: "fetch_conversations api s (totalLimit - int (length chunk))
            nextCursor (store_chunk chunk serverInfo) = (r', tr')"
          by (cases "fetch_conversations api s (totalLimit - int (length chunk))
            nextCursor (store_chunk chunk serverInfo)")
        have "\<forall>e \<in> set tr'. \<exists>c. e = Slack c"
          using "1.IH" [OF False reqLimit_def call [symmetric] Inr page [symmetric] more] rec
          by simp
        with False call Inr page more rec tr0 show ?thesis
          by (auto simp: reqLimit_def Let_def)
      qed
    qed
  qed
qed

subsection \<open>What the paging stores\<close>

lemma store_chunk_append:
  "store_chunk (xs @ ys) serverInfo = store_chunk ys (store_chunk xs serverInfo)"
  by (induction xs arbitrary: serverInfo) simp_all

lemma map_of_store_chunk:
  "map_of (store_chunk chunk serverInfo)
     = map_of (rev (map (\<lambda>ch. (ch_ID ch, ch)) (filter (\<lambda>ch. \<not> skipped_DM ch) chunk))
               @ serverInfo)"
proof (induction chunk arbitrary: serverInfo)
  case Nil
  then show ?case by simp
next
  case (Cons c chunk)
  show ?case
  proof (cases "skipped_DM c")
    case True
    then show ?thesis by (simp add: Cons.IH)
  next
    case False
    then show ?thesis
      by (simp add: Cons.IH update_conv' map_add_def fun_eq_iff split: option.splits)
  qed
qed

lemma candidates_store_chunk: "map_of (store_chunk fetched []) = candidates fetched"
  by (simp add: map_of_store_chunk candidates_def skipped_DM_def)

lemma fetch_conversations_paged:
  assumes "fetch_conversations api s totalLimit cursor serverInfo = (Inr serverInfo', tr)"
  shows "paged_requests api totalLimit cursor (remote_calls tr)
       \<and> serverInfo'
           = store_chunk (concat (map (answered_chunk api) (remote_calls tr))) serverInfo"
  using assms
proof (induction api s totalLimit cursor serverInfo arbitrary: tr
    rule: fetch_conversations.induct)
  case (1 api s totalLimit cursor serverInfo)
  show ?case
  proof (cases "totalLimit \<le> 0")
    case True
    with "1.prems" show ?thesis by simp
  next
    case False
    define reqLimit where "reqLimit = (if totalLimit > 200 then 100 else totalLimit)"
    obtain r tr0 where call: "client_call s (GetConversationsForUserContext reqLimit cursor)
        (resp_GetConversationsForUser api reqLimit cursor) = (r, tr0)"
      by (cases "client_call s (GetConversationsForUserContext reqLimit cursor)
        (resp_GetConversationsForUser api reqLimit cursor)")
    show ?thesis
    proof (cases r)
      case (Inl f)
      with "1.prems"(1) False call show ?thesis
        by (simp add: reqLimit_def Let_def)
    next
      case (Inr page)
      obtain chunk nextCursor where page: "page = (chunk, nextCursor)"
        by (cases page)
      have resp: "resp_GetConversationsForUser api reqLimit cursor = Inr (chunk, nextCursor)"
        and tr0: "tr0 = [Slack (GetConversationsForUserContext reqLimit cursor)]"
        using call Inr page
        by (auto simp: client_call_def split: option.splits sum.splits)
      show ?thesis
      proof (cases "nextCursor = [] \<or> chunk = []")
        case True
        with "1.prems"(1) False call Inr page
        have "serverInfo' = store_chunk chunk serverInfo" and "tr = tr0"
          by (simp_all add: reqLimit_def Let_def)
        with True False resp tr0 show ?thesis
          by (simp add: reqLimit_def)
      next
        case more: False
        obtain r' tr' where rec: "fetch_conversations api s (totalLimit - int (length chunk))
            nextCursor (store_chunk chunk serverInfo) = (r', tr')"
          by (cases "fetch_conversations api s (totalLimit - int (length chunk))
            nextCursor (store_chunk chunk serverInfo)")
        with "1.prems"(1) False call Inr page more
        have r': "r' = Inr serverInfo'" and tr: "tr = tr0 @ tr'"
          by (simp_all add: reqLimit_def Let_def)
        have "paged_requests api (totalLimit - int (length chunk)) nextCursor (remote_calls tr')
            \<and> serverInfo'
               = store_chunk (concat (map (answered_chunk api) (remote_calls tr')))
                   (store_chunk chunk serverInfo)"
          using "1.IH" [OF False reqLimit_def call [symmetric] Inr page [symmetric] more
              rec [unfolded r']] .
        with more False resp tr tr0 show ?thesis
          by (simp add: reqLimit_def store_chunk_append)
      qed
    qed
  qed
qed

subsection \<open>The known portals\<close>

lemma delete_filter: "AList.delete k al = filter (\<lambda>p. fst p \<noteq> k) al"
  by (induction al) auto

lemma refresh_existing_remaining:
  "fst (refresh_existing cn br userPortals serverInfo)
     = filter (\<lambda>p. fst p \<notin> fst ` set (materialized br userPortals)) serverInfo"
proof (induction userPortals arbitrary: serverInfo)
  case Nil
  then show ?case by simp
next
  case (Cons userPortal userPortals)
  have keep: "filter (\<lambda>p. fst p \<notin> M) (filter (\<lambda>p. fst p \<noteq> k) al)
      = filter (\<lambda>p. fst p \<noteq> k \<and> fst p \<notin> M) al" for M k and al :: serverInfo
    by (induction al) auto
  show ?case
    by (auto simp: Let_def case_prod_beta Cons.IH delete_filter keep split: sum.splits
        intro!: filter_cong)
qed

lemma refresh_existing_trace:
  "refreshed (snd (refresh_existing cn br userPortals serverInfo))
     = map snd (materialized br userPortals)"
  "updated (snd (refresh_existing cn br userPortals serverInfo))
     = List.map_filter
         (\<lambda>portal. case resp_GetChatInfo cn portal of
                      Inl e \<Rightarrow> None | Inr info \<Rightarrow> Some (portal, info))
         (map snd (materialized br userPortals))"
  "visited (snd (refresh_existing cn br userPortals serverInfo)) = []"
  "created (snd (refresh_existing cn br userPortals serverInfo)) = []"
  "remote_calls (snd (refresh_existing cn br userPortals serverInfo)) = []"
  by (induction userPortals arbitrary: serverInfo)
    (simp_all add: Let_def case_prod_beta split: sum.splits)

subsection \<open>Creation\<close>

lemma create_rooms_trace:
  "visited (create_rooms cn br chs) = map (makePortalKey cn) chs"
  "created (create_rooms cn br chs)
     = List.map_filter
         (\<lambda>ch. case resp_GetPortalByID br (makePortalKey cn ch) of
                  Inl e \<Rightarrow> None | Inr portal \<Rightarrow> Some portal) chs"
  "refreshed (create_rooms cn br chs) = []"
  "updated (create_rooms cn br chs) = []"
  "remote_calls (create_rooms cn br chs) = []"
  by (induction chs) (simp_all add: split: sum.splits)

lemma remainingChannels_sorted: "sorted (map LastRead (remainingChannels cn serverInfo))"
  by (simp add: remainingChannels_def)

lemma remainingChannels_mset:
  "mset (map_range cn serverInfo) = mset serverInfo \<Longrightarrow>
   mset (remainingChannels cn serverInfo) = mset (map snd serverInfo)"
  by (simp add: remainingChannels_def)


lemma keyed_filter:
  "\<forall>p \<in> set serverInfo. fst p = ch_ID (snd p) \<Longrightarrow>
   map snd (filter (\<lambda>p. fst p \<notin> M) serverInfo) = filter (\<lambda>ch. ch_ID ch \<notin> M) (map snd serverInfo)"
  by (induction serverInfo) auto

lemma SyncChannels_after_fetch:
  assumes "\<not> HasPrefix (stored_token s) ''xoxs''"
    and "fetch_conversations api s (ConversationCount cn) [] [] = (Inr serverInfo, tr)"
    and "resp_GetAllForLogin br = Inr userPortals"
  shows "SyncChannels cn br api s =
     (Completed,
      tr @ [Bridge GetAllForLogin] @ snd (refresh_existing cn br userPortals serverInfo)
        @ create_rooms cn br
            (remainingChannels cn (fst (refresh_existing cn br userPortals serverInfo))))"
  using assms by (simp add: SyncChannels_def case_prod_beta)

text \<open>
  The phases of a sync whose paging succeeded, in terms of the candidates
  \<open>serverInfo\<close> that the paging stored.
\<close>

lemma SyncChannels_phases:
  assumes range: "\<And>entries. mset (map_range cn entries) = mset entries"
    and token: "\<not> HasPrefix (stored_token s) ''xoxs''"
    and fetch: "fetch_conversations api s (ConversationCount cn) [] [] = (Inr serverInfo, tr)"
    and portals: "resp_GetAllForLogin br = Inr userPortals"
  shows "fst (SyncChannels cn br api s) = Completed
       \<and> distinct (map fst serverInfo)
       \<and> (\<forall>p \<in> set serverInfo.
             fst p = ch_ID (snd p) \<and> \<not> skipped_DM (snd p)
             \<and> (\<exists>limit cursor chunk next.
                   resp_GetConversationsForUser api limit cursor = Inr (chunk, next)
                   \<and> snd p \<in> set chunk))
       \<and> refreshed (snd (SyncChannels cn br api s)) = map snd (materialized br userPortals)
       \<and> updated (snd (SyncChannels cn br api s))
           = List.map_filter
               (\<lambda>portal. case resp_GetChatInfo cn portal of
                            Inl e \<Rightarrow> None | Inr info \<Rightarrow> Some (portal, info))
               (map snd (materialized br userPortals))
       \<and> mset (remainingChannels cn (fst (refresh_existing cn br userPortals serverInfo)))
           = mset (filter (\<lambda>ch. ch_ID ch \<notin> fst ` set (materialized br userPortals))
                     (map snd serverInfo))
       \<and> sorted (map LastRead
                    (remainingChannels cn (fst (refresh_existing cn br userPortals serverInfo))))
       \<and> visited (snd (SyncChannels cn br api s))
           = map (makePortalKey cn)
               (remainingChannels cn (fst (refresh_existing cn br userPortals serverInfo)))
       \<and> created (snd (SyncChannels cn br api s))
           = List.map_filter
               (\<lambda>ch. case resp_GetPortalByID br (makePortalKey cn ch) of
                        Inl e \<Rightarrow> None | Inr portal \<Rightarrow> Some portal)
               (remainingChannels cn (fst (refresh_existing cn br userPortals serverInfo)))"
proof -
  note run = SyncChannels_after_fetch [OF token fetch portals]
  have fetched: "\<forall>e \<in> set tr. \<exists>c. e = Slack c"
    using fetch_conversations_slack_only [of api s "ConversationCount cn" "[]" "[]"] fetch
    by simp
  have entries: "\<forall>p \<in> set serverInfo.
      fst p = ch_ID (snd p) \<and> \<not> skipped_DM (snd p)
      \<and> (\<exists>limit cursor chunk next.
            resp_GetConversationsForUser api limit cursor = Inr (chunk, next)
            \<and> snd p \<in> set chunk)"
  proof
    fix p assume "p \<in> set serverInfo"
    then have "(fst p, snd p) \<in> set serverInfo" by simp
    from fetch_conversations_entries [OF fetch this]
    show "fst p = ch_ID (snd p) \<and> \<not> skipped_DM (snd p)
      \<and> (\<exists>limit cursor chunk next.
            resp_GetConversationsForUser api limit cursor = Inr (chunk, next)
            \<and> snd p \<in> set chunk)"
      by simp
  qed
  have rest: "mset (remainingChannels cn (fst (refresh_existing cn br userPortals serverInfo)))
      = mset (filter (\<lambda>ch. ch_ID ch \<notin> fst ` set (materialized br userPortals))
                (map snd serverInfo))"
    using entries
    by (simp add: remainingChannels_mset [OF range] refresh_existing_remaining keyed_filter)
  have "fst (SyncChannels cn br api s) = Completed"
    by (simp add: run)
  moreover have "refreshed (snd (SyncChannels cn br api s))
      = map snd (materialized br userPortals)"
    by (simp add: run slack_only_trace [OF fetched] refresh_existing_trace create_rooms_trace)
  moreover have "updated (snd (SyncChannels cn br api s))
      = List.map_filter
          (\<lambda>portal. case resp_GetChatInfo cn portal of
                       Inl e \<Rightarrow> None | Inr info \<Rightarrow> Some (portal, info))
          (map snd (materialized br userPortals))"
    by (simp add: run slack_only_trace [OF fetched] refresh_existing_trace create_rooms_trace)
  moreover have "visited (snd (SyncChannels cn br api s))
      = map (makePortalKey cn)
          (remainingChannels cn (fst (refresh_existing cn br userPortals serverInfo)))"
    by (simp add: run slack_only_trace [OF fetched] refresh_existing_trace create_rooms_trace)
  moreover have "created (snd (SyncChannels cn br api s))
      = List.map_filter
          (\<lambda>ch. case resp_GetPortalByID br (makePortalKey cn ch) of
                   Inl e \<Rightarrow> None | Inr portal \<Rightarrow> Some portal)
          (remainingChannels cn (fst (refresh_existing cn br userPortals serverInfo)))"
    by (simp add: run slack_only_trace [OF fetched] refresh_existing_trace create_rooms_trace)
  ultimately show ?thesis
    using entries rest remainingChannels_sorted fetch_conversations_distinct [OF fetch]
    by blast
qed

lemma SyncChannels_completed:
  assumes "\<not> HasPrefix (stored_token s) ''xoxs''"
    and "fst (SyncChannels cn br api s) = Completed"
  shows "\<exists>serverInfo tr.
           fetch_conversations api s (ConversationCount cn) [] [] = (Inr serverInfo, tr)"
proof (cases "fetch_conversations api s (ConversationCount cn) [] []")
  case (Pair r tr)
  show ?thesis
  proof (cases r)
    case (Inl f)
    with Pair assms show ?thesis
      by (cases f) (simp_all add: SyncChannels_def)
  next
    case (Inr serverInfo)
    with Pair show ?thesis by simp
  qed
qed

lemma remaining_set:
  assumes keys: "distinct (map fst serverInfo)"
    and own: "\<forall>p \<in> set serverInfo. fst p = ch_ID (snd p)"
    and rest: "mset rest = mset (filter (\<lambda>ch. ch_ID ch \<notin> M) (map snd serverInfo))"
  shows "distinct (map ch_ID rest)"
    and "set rest = {ch. map_of serverInfo (ch_ID ch) = Some ch \<and> ch_ID ch \<notin> M}"
proof -
  have ids: "map ch_ID (map snd serverInfo) = map fst serverInfo"
    using own by (induction serverInfo) auto
  have "distinct (map ch_ID (map snd serverInfo))"
    using keys by (simp only: ids)
  then have "distinct (map ch_ID (filter (\<lambda>ch. ch_ID ch \<notin> M) (map snd serverInfo)))"
    by (rule distinct_map_filter)
  moreover have "mset (map ch_ID rest)
      = mset (map ch_ID (filter (\<lambda>ch. ch_ID ch \<notin> M) (map snd serverInfo)))"
    using rest by (metis mset_map)
  ultimately show "distinct (map ch_ID rest)"
    by (metis mset_eq_imp_distinct_iff)
  have "set rest = set (filter (\<lambda>ch. ch_ID ch \<notin> M) (map snd serverInfo))"
    using rest by (rule mset_eq_setD)
  also have "\<dots> = {ch. map_of serverInfo (ch_ID ch) = Some ch \<and> ch_ID ch \<notin> M}"
  proof (intro set_eqI iffI)
    fix ch assume "ch \<in> set (filter (\<lambda>ch. ch_ID ch \<notin> M) (map snd serverInfo))"
    then obtain p where p: "p \<in> set serverInfo" "snd p = ch" "ch_ID ch \<notin> M"
      by auto
    with own have "(ch_ID ch, ch) \<in> set serverInfo"
      by (metis prod.collapse)
    with keys have "map_of serverInfo (ch_ID ch) = Some ch"
      by (rule map_of_is_SomeI)
    with p show "ch \<in> {ch. map_of serverInfo (ch_ID ch) = Some ch \<and> ch_ID ch \<notin> M}"
      by simp
  next
    fix ch assume "ch \<in> {ch. map_of serverInfo (ch_ID ch) = Some ch \<and> ch_ID ch \<notin> M}"
    then have "(ch_ID ch, ch) \<in> set serverInfo" and "ch_ID ch \<notin> M"
      by (auto dest: map_of_SomeD)
    then show "ch \<in> set (filter (\<lambda>ch. ch_ID ch \<notin> M) (map snd serverInfo))"
      by force
  qed
  finally show "set rest = {ch. map_of serverInfo (ch_ID ch) = Some ch \<and> ch_ID ch \<notin> M}" .
qed

text \<open>
  Claim C4 as stated fails on its filter: the sync does not only skip direct-message
  conversations without a visible message. A direct-message conversation whose latest
  message is an ordinary message, fetched from the API and without a local room, is
  dropped as well: the sync runs to its end and neither looks up nor creates a room.
\<close>

theorem open_dm_skipped_counterexample:
  "IsIM demo_open_dm \<and> Latest demo_open_dm = Some []
   \<and> resp_GetConversationsForUser dm_api 50 [] = Inr ([demo_open_dm], [])
   \<and> resp_GetAllForLogin fresh_bridge = Inr []
   \<and> SyncChannels demo_connector fresh_bridge dm_api demo_session
       = (Completed, [Slack (GetConversationsForUserContext 50 []), Bridge GetAllForLogin])"
  by (simp add: SyncChannels_def HasPrefix_def stored_token_def demo_session_def
      demo_connector_def dm_api_def demo_api_def fresh_bridge_def demo_bridge_def
      demo_open_dm_def client_call_def skipped_DM_def remainingChannels_def)

text \<open>
  Claim C4, amended. When the stored token does not start with \<open>xoxs\<close> and the sync
  runs to its end with the login's known portals read, channel reconciliation
  \<^item> fetches the conversation list page by page within the configured budget,
    following the cursor of each answer;
  \<^item> skips the direct-message conversations whose latest message is absent or has an
    empty subtype (so also those whose latest message is an ordinary one), and keeps
    for each channel id the last fetched channel among the others;
  \<^item> fetches the metadata again for exactly the known portals that have a local
    room, applies it where that fetch succeeds, and removes their channels from the
    candidates;
  \<^item> looks up a portal for each remaining candidate, each once, in ascending order of
    \<^verbatim>\<open>LastRead\<close>, and requests the creation of a room only for the portals of these
    lookups.
\<close>

theorem SyncChannels_reconciliation:
  assumes range: "\<And>entries. mset (map_range cn entries) = mset entries"
    and token: "\<not> HasPrefix (stored_token s) ''xoxs''"
    and completed: "fst (SyncChannels cn br api s) = Completed"
    and portals: "resp_GetAllForLogin br = Inr userPortals"
  shows "\<exists>rest.
           paged_requests api (ConversationCount cn) []
             (remote_calls (snd (SyncChannels cn br api s)))
         \<and> refreshed (snd (SyncChannels cn br api s)) = map snd (materialized br userPortals)
         \<and> updated (snd (SyncChannels cn br api s))
             = List.map_filter
                 (\<lambda>portal. case resp_GetChatInfo cn portal of
                              Inl e \<Rightarrow> None | Inr info \<Rightarrow> Some (portal, info))
                 (map snd (materialized br userPortals))
         \<and> distinct (map ch_ID rest)
         \<and> set rest
             = {ch. candidates
                      (concat (map (answered_chunk api)
                         (remote_calls (snd (SyncChannels cn br api s))))) (ch_ID ch) = Some ch
                    \<and> ch_ID ch \<notin> fst ` set (materialized br userPortals)}
         \<and> sorted (map LastRead rest)
         \<and> visited (snd (SyncChannels cn br api s)) = map (makePortalKey cn) rest
         \<and> created (snd (SyncChannels cn br api s))
             = List.map_filter
                 (\<lambda>ch. case resp_GetPortalByID br (makePortalKey cn ch) of
                          Inl e \<Rightarrow> None | Inr portal \<Rightarrow> Some portal)
                 rest"
proof -
  from SyncChannels_completed [OF token completed]
  obtain serverInfo tr
    where fetch: "fetch_conversations api s (ConversationCount cn) [] [] = (Inr serverInfo, tr)"
    by blast
  define calls where "calls = remote_calls tr"
  define rest where
    "rest = remainingChannels cn (fst (refresh_existing cn br userPortals serverInfo))"
  note old = SyncChannels_phases [OF range token fetch portals, folded rest_def]
  note run = SyncChannels_after_fetch [OF token fetch portals]
  have calls: "remote_calls (snd (SyncChannels cn br api s)) = calls"
    by (simp add: run refresh_existing_trace create_rooms_trace calls_def)
  from fetch_conversations_paged [OF fetch]
  have paged: "paged_requests api (ConversationCount cn) [] calls"
    and stored: "serverInfo = store_chunk (concat (map (answered_chunk api) calls)) []"
    by (simp_all add: calls_def)
  have cand: "map_of serverInfo = candidates (concat (map (answered_chunk api) calls))"
    unfolding stored by (rule candidates_store_chunk)
  from old have keys: "distinct (map fst serverInfo)"
    and own: "\<forall>p \<in> set serverInfo. fst p = ch_ID (snd p)"
    and mrest: "mset rest
      = mset (filter (\<lambda>ch. ch_ID ch \<notin> fst ` set (materialized br userPortals))
                (map snd serverInfo))"
    by blast+
  note rs = remaining_set [OF keys own mrest, unfolded cand]
  from old paged rs show ?thesis
    unfolding calls by blast
qed

text \<open>
  Claim C10. When the stored login token starts with \<open>xoxs\<close>, channel reconciliation
  issues no remote call, so the conversation list is never fetched; the candidate set
  stays empty, the sync only reads the login's known portals and fetches the metadata
  of those with a local room again, and it never looks up or creates a room for a
  channel, whatever channels exist remotely.
\<close>

theorem SyncChannels_legacy_token:
  assumes range: "\<And>entries. mset (map_range cn entries) = mset entries"
    and token: "HasPrefix (stored_token s) ''xoxs''"
  shows "remote_calls (snd (SyncChannels cn br api s)) = []
       \<and> visited (snd (SyncChannels cn br api s)) = []
       \<and> created (snd (SyncChannels cn br api s)) = []
       \<and> SyncChannels cn br api s =
           (case resp_GetAllForLogin br of
              Inl e \<Rightarrow> (ReturnedEarly (Remote e), [Bridge GetAllForLogin])
            | Inr userPortals \<Rightarrow>
                (Completed, Bridge GetAllForLogin # snd (refresh_existing cn br userPortals [])))"
proof -
  have "mset (map_range cn []) = mset ([] :: serverInfo)"
    by (rule range)
  then have none: "remainingChannels cn [] = []"
    by (simp add: remainingChannels_def)
  have empty: "fst (refresh_existing cn br userPortals []) = []" for userPortals
    by (simp add: refresh_existing_remaining)
  have run: "SyncChannels cn br api s =
      (case resp_GetAllForLogin br of
         Inl e \<Rightarrow> (ReturnedEarly (Remote e), [Bridge GetAllForLogin])
       | Inr userPortals \<Rightarrow>
           (Completed, Bridge GetAllForLogin # snd (refresh_existing cn br userPortals [])))"
    using token by (simp add: SyncChannels_def case_prod_beta empty none split: sum.splits)
  show ?thesis
    unfolding run by (simp add: refresh_existing_trace split: sum.splits)
qed


lemma demo_range: "mset (map_range demo_connector entries) = mset entries"
  by (simp add: demo_connector_def)

lemma demo_fetch:
  "fetch_conversations demo_api demo_session (ConversationCount demo_connector) [] []
     = (Inr [(''C061EG9SL'', demo_general), (''C024BE91L'', demo_random),
             (''C0G9QF9GW'', demo_announce)],
        [Slack (GetConversationsForUserContext 50 [])])"
  by (simp add: demo_connector_def demo_api_def demo_session_def client_call_def
      demo_channels_def demo_general_def demo_random_def demo_dm_def demo_announce_def
      skipped_DM_def)

lemma demo_remaining:
  "remainingChannels demo_connector
     (fst (refresh_existing demo_connector demo_bridge [demo_portal]
        [(''C061EG9SL'', demo_general), (''C024BE91L'', demo_random),
         (''C0G9QF9GW'', demo_announce)]))
   = [demo_random, demo_announce]"
  by (simp add: remainingChannels_def demo_connector_def demo_bridge_def demo_portal_def
      ParsePortalID_demo demo_general_def demo_random_def demo_announce_def Let_def
      less_eq_char_def less_char_def)

lemma demo_materialized:
  "materialized demo_bridge [demo_portal]
     = [(''C061EG9SL'', \<lparr>portal_Key = demo_portal, MXID = ''!general:example.org''\<rparr>)]"
  by (simp add: demo_bridge_def demo_portal_def ParsePortalID_demo Let_def)


lemma demo_sync:
  "SyncChannels demo_connector demo_bridge demo_api demo_session
     = (Completed,
        [Slack (GetConversationsForUserContext 50 []),
         Bridge GetAllForLogin,
         Bridge (GetExistingPortalByID demo_portal),
         Bridge (GetChatInfo \<lparr>portal_Key = demo_portal, MXID = ''!general:example.org''\<rparr>),
         Bridge (UpdateInfo \<lparr>portal_Key = demo_portal, MXID = ''!general:example.org''\<rparr>
                   (ChatInfo ''general'')),
         Bridge (GetPortalByID
                   \<lparr>pk_ID = ''T024BE7LD-C024BE91L'', pk_Receiver = ''T024BE7LD-U2147483697''\<rparr>),
         Bridge (CreateMatrixRoom
                   \<lparr>portal_Key = \<lparr>pk_ID = ''T024BE7LD-C024BE91L'',
                                    pk_Receiver = ''T024BE7LD-U2147483697''\<rparr>, MXID = []\<rparr>),
         Bridge (GetPortalByID
                   \<lparr>pk_ID = ''T024BE7LD-C0G9QF9GW'', pk_Receiver = ''T024BE7LD-U2147483697''\<rparr>),
         Bridge (CreateMatrixRoom
                   \<lparr>portal_Key = \<lparr>pk_ID = ''T024BE7LD-C0G9QF9GW'',
                                    pk_Receiver = ''T024BE7LD-U2147483697''\<rparr>, MXID = []\<rparr>)])"
proof -
  have token: "\<not> HasPrefix (stored_token demo_session) ''xoxs''"
    by (simp add: HasPrefix_def stored_token_def demo_session_def)
  have portals: "resp_GetAllForLogin demo_bridge = Inr [demo_portal]"
    by (simp add: demo_bridge_def)
  have keys: "makePortalKey demo_connector demo_random
      = \<lparr>pk_ID = ''T024BE7LD-C024BE91L'', pk_Receiver = ''T024BE7LD-U2147483697''\<rparr>"
    "makePortalKey demo_connector demo_announce
      = \<lparr>pk_ID = ''T024BE7LD-C0G9QF9GW'', pk_Receiver = ''T024BE7LD-U2147483697''\<rparr>"
    by (simp_all add: demo_connector_def demo_random_def demo_announce_def MakePortalID_def
        delimiter_def)
  have lookup: "resp_GetPortalByID demo_bridge key = Inr \<lparr>portal_Key = key, MXID = []\<rparr>" for key
    by (simp add: demo_bridge_def)
  have refresh: "snd (refresh_existing demo_connector demo_bridge [demo_portal]
      [(''C061EG9SL'', demo_general), (''C024BE91L'', demo_random),
       (''C0G9QF9GW'', demo_announce)])
    = [Bridge (GetExistingPortalByID demo_portal),
       Bridge (GetChatInfo \<lparr>portal_Key = demo_portal, MXID = ''!general:example.org''\<rparr>),
       Bridge (UpdateInfo \<lparr>portal_Key = demo_portal, MXID = ''!general:example.org''\<rparr>
                 (ChatInfo ''general''))]"
    by (simp add: demo_bridge_def demo_connector_def demo_portal_def ParsePortalID_demo Let_def)
  show ?thesis
    unfolding SyncChannels_after_fetch [OF token demo_fetch portals] demo_remaining refresh
    by (simp add: keys lookup)
qed

theorem SyncChannels_reconciliation_witness:
  "(\<exists>rest.
      paged_requests demo_api (ConversationCount demo_connector) []
        (remote_calls (snd (SyncChannels demo_connector demo_bridge demo_api demo_session)))
      \<and> refreshed (snd (SyncChannels demo_connector demo_bridge demo_api demo_session))
          = map snd (materialized demo_bridge [demo_portal])
      \<and> updated (snd (SyncChannels demo_connector demo_bridge demo_api demo_session))
          = List.map_filter
              (\<lambda>portal. case resp_GetChatInfo demo_connector portal of
                           Inl e \<Rightarrow> None | Inr info \<Rightarrow> Some (portal, info))
              (map snd (materialized demo_bridge [demo_portal]))
      \<and> distinct (map ch_ID rest)
      \<and> set rest
          = {ch. candidates
                   (concat (map (answered_chunk demo_api)
                      (remote_calls
                         (snd (SyncChannels demo_connector demo_bridge demo_api demo_session)))))
                   (ch_ID ch) = Some ch
                 \<and> ch_ID ch \<notin> fst ` set (materialized demo_bridge [demo_portal])}
      \<and> sorted (map LastRead rest)
      \<and> visited (snd (SyncChannels demo_connector demo_bridge demo_api demo_session))
          = map (makePortalKey demo_connector) rest
      \<and> created (snd (SyncChannels demo_connector demo_bridge demo_api demo_session))
          = List.map_filter
              (\<lambda>ch. case resp_GetPortalByID demo_bridge (makePortalKey demo_connector ch) of
                       Inl e \<Rightarrow> None | Inr portal \<Rightarrow> Some portal)
              rest)
   \<and> remote_calls (snd (SyncChannels demo_connector demo_bridge demo_api demo_session))
       = [GetConversationsForUserContext 50 []]
   \<and> refreshed (snd (SyncChannels demo_connector demo_bridge demo_api demo_session))
       = [\<lparr>portal_Key = demo_portal, MXID = ''!general:example.org''\<rparr>]
   \<and> visited (snd (SyncChannels demo_connector demo_bridge demo_api demo_session))
       = [\<lparr>pk_ID = ''T024BE7LD-C024BE91L'', pk_Receiver = ''T024BE7LD-U2147483697''\<rparr>,
          \<lparr>pk_ID = ''T024BE7LD-C0G9QF9GW'', pk_Receiver = ''T024BE7LD-U2147483697''\<rparr>]
   \<and> created (snd (SyncChannels demo_connector demo_bridge demo_api demo_session))
       = [\<lparr>portal_Key = \<lparr>pk_ID = ''T024BE7LD-C024BE91L'',
                           pk_Receiver = ''T024BE7LD-U2147483697''\<rparr>, MXID = []\<rparr>,
          \<lparr>portal_Key = \<lparr>pk_ID = ''T024BE7LD-C0G9QF9GW'',
                           pk_Receiver = ''T024BE7LD-U2147483697''\<rparr>, MXID = []\<rparr>]"
proof -
  have token: "\<not> HasPrefix (stored_token demo_session) ''xoxs''"
    by (simp add: HasPrefix_def stored_token_def demo_session_def)
  have portals: "resp_GetAllForLogin demo_bridge = Inr [demo_portal]"
    by (simp add: demo_bridge_def)
  have completed: "fst (SyncChannels demo_connector demo_bridge demo_api demo_session) = Completed"
    by (simp add: demo_sync)
  note sync = SyncChannels_reconciliation [OF demo_range token completed portals]
  moreover have "remote_calls (snd (SyncChannels demo_connector demo_bridge demo_api demo_session))
      = [GetConversationsForUserContext 50 []]"
    and "refreshed (snd (SyncChannels demo_connector demo_bridge demo_api demo_session))
      = [\<lparr>portal_Key = demo_portal, MXID = ''!general:example.org''\<rparr>]"
    and "visited (snd (SyncChannels demo_connector demo_bridge demo_api demo_session))
      = [\<lparr>pk_ID = ''T024BE7LD-C024BE91L'', pk_Receiver = ''T024BE7LD-U2147483697''\<rparr>,
         \<lparr>pk_ID = ''T024BE7LD-C0G9QF9GW'', pk_Receiver = ''T024BE7LD-U2147483697''\<rparr>]"
    and "created (snd (SyncChannels demo_connector demo_bridge demo_api demo_session))
      = [\<lparr>portal_Key = \<lparr>pk_ID = ''T024BE7LD-C024BE91L'',
                          pk_Receiver = ''T024BE7LD-U2147483697''\<rparr>, MXID = []\<rparr>,
         \<lparr>portal_Key = \<lparr>pk_ID = ''T024BE7LD-C0G9QF9GW'',
                          pk_Receiver = ''T024BE7LD-U2147483697''\<rparr>, MXID = []\<rparr>]"
    unfolding demo_sync by simp_all
  ultimately show ?thesis by (intro conjI)
qed

theorem SyncChannels_legacy_token_witness:
  "remote_calls (snd (SyncChannels demo_connector demo_bridge demo_api legacy_session)) = []
   \<and> visited (snd (SyncChannels demo_connector demo_bridge demo_api legacy_session)) = []
   \<and> created (snd (SyncChannels demo_connector demo_bridge demo_api legacy_session)) = []
   \<and> fst (SyncChannels demo_connector demo_bridge demo_api legacy_session) = Completed"
proof -
  have token: "HasPrefix (stored_token legacy_session) ''xoxs''"
    by (simp add: HasPrefix_def stored_token_def legacy_session_def)
  have portals: "resp_GetAllForLogin demo_bridge = Inr [demo_portal]"
    by (simp add: demo_bridge_def)
  note legacy = SyncChannels_legacy_token [OF demo_range token, of demo_bridge demo_api]
  from legacy have "fst (SyncChannels demo_connector demo_bridge demo_api legacy_session)
      = Completed"
    by (simp add: portals)
  with legacy show ?thesis by blast
qed

end
